theory Spec2Isabelle
  imports Complex_Main
begin

section \<open>Python values and exceptions\<close>

text \<open>
  The scraper (\<^verbatim>\<open>car_scraper.py\<close>) handles loosely typed data: attributes of the ads
  returned by the marketplace API and the dictionaries it builds from them. A value is
  \<^verbatim>\<open>None\<close>, a bool, an (unbounded) int, a str, a list, a dict with string keys (kept
  as an association list in insertion order, as Python dicts are), or an object of a class
  this module knows nothing about (\<open>PObj\<close>, named by its class). Strings stand for their
  UTF-8 bytes, so \<^verbatim>\<open>s.encode('utf-8')\<close> is the identity on them. Floats are not modelled.
\<close>

datatype pyval =
    PNone
  | PBool bool
  | PInt int
  | PStr string
  | PList "pyval list"
  | PDict "(string \<times> pyval) list"
  | PObj string

type_synonym pydict = "(string \<times> pyval) list"

text \<open>
  Exceptions raised in this module. All of them derive from \<^verbatim>\<open>Exception\<close>, which is what
  the \<^verbatim>\<open>except Exception\<close> clauses catch; \<open>KafkaError\<close> stands for
  \<^verbatim>\<open>kafka.errors.KafkaError\<close> and its subclasses (named by the string).
\<close>

datatype exn =
    KafkaError string
  | AttributeError
  | TypeError
  | KeyError
  | IndexError
  | ZeroDivisionError
  | OtherError string

fun is_kafka_error :: "exn \<Rightarrow> bool" where
  "is_kafka_error (KafkaError _) = True"
| "is_kafka_error _ = False"

text \<open>Sequencing of computations that may raise.\<close>

definition bind_exn :: "exn + 'a \<Rightarrow> ('a \<Rightarrow> exn + 'b) \<Rightarrow> exn + 'b" where
  "bind_exn m f = (case m of Inl e \<Rightarrow> Inl e | Inr x \<Rightarrow> f x)"

text \<open>Python truthiness: what \<^verbatim>\<open>if v:\<close> and \<^verbatim>\<open>a and b\<close> test.\<close>

fun truthy :: "pyval \<Rightarrow> bool" where
  "truthy PNone = False"
| "truthy (PBool b) = b"
| "truthy (PInt i) = (i \<noteq> 0)"
| "truthy (PStr s) = (s \<noteq> [])"
| "truthy (PList xs) = (xs \<noteq> [])"
| "truthy (PDict kvs) = (kvs \<noteq> [])"
| "truthy (PObj _) = True"

text \<open>\<^verbatim>\<open>d.get(k)\<close> and \<^verbatim>\<open>d.get(k, default)\<close> on a dict.\<close>

definition dict_get :: "pydict \<Rightarrow> string \<Rightarrow> pyval \<Rightarrow> pyval" where
  "dict_get d k dflt = (case map_of d k of None \<Rightarrow> dflt | Some v \<Rightarrow> v)"

text \<open>\<^verbatim>\<open>d[k]\<close>: raises \<^verbatim>\<open>KeyError\<close> on a missing key.\<close>

definition dict_item :: "pydict \<Rightarrow> string \<Rightarrow> exn + pyval" where
  "dict_item d k = (case map_of d k of None \<Rightarrow> Inl KeyError | Some v \<Rightarrow> Inr v)"

text \<open>\<^verbatim>\<open>d[k] = v\<close>: replaces the value of an existing key in place, appends a new key.\<close>

fun dict_set :: "pydict \<Rightarrow> string \<Rightarrow> pyval \<Rightarrow> pydict" where
  "dict_set [] k v = [(k, v)]"
| "dict_set ((k', v') # d) k v = (if k' = k then (k, v) # d else (k', v') # dict_set d k v)"

text \<open>
  \<^verbatim>\<open>v.get(k)\<close> on an arbitrary value: only a dict has the method; on anything else the
  attribute lookup raises \<^verbatim>\<open>AttributeError\<close>.
\<close>

fun py_get :: "pyval \<Rightarrow> string \<Rightarrow> pyval \<Rightarrow> exn + pyval" where
  "py_get (PDict d) k dflt = Inr (dict_get d k dflt)"
| "py_get _ k dflt = Inl AttributeError"

text \<open>Decimal digits of a natural number and of an int, as \<^verbatim>\<open>str\<close> prints them.\<close>

fun digits :: "nat \<Rightarrow> string" where
  "digits n =
     (if n < 10 then [char_of (48 + n)]
      else digits (n div 10) @ [char_of (48 + n mod 10)])"

definition str_int :: "int \<Rightarrow> string" where
  "str_int i = (if i < 0 then CHR ''-'' # digits (nat (- i)) else digits (nat i))"

text \<open>
  \<^verbatim>\<open>str(v)\<close>. For \<^verbatim>\<open>None\<close>, bools, ints and strings the result is fixed by the
  language; for containers and foreign objects it is their \<^verbatim>\<open>repr\<close>, taken as the
  parameter \<open>rp\<close>.
\<close>

fun py_str :: "(pyval \<Rightarrow> string) \<Rightarrow> pyval \<Rightarrow> string" where
  "py_str rp PNone = ''None''"
| "py_str rp (PBool b) = (if b then ''True'' else ''False'')"
| "py_str rp (PInt i) = str_int i"
| "py_str rp (PStr s) = s"
| "py_str rp v = rp v"

declare digits.simps [simp del]

section \<open>The fetcher: \<^verbatim>\<open>BlocketCarScraper\<close>\<close>

text \<open>
  A raw ad is an object of the API wrapper whose attributes may or may not be there
  (\<^verbatim>\<open>hasattr\<close>, \<^verbatim>\<open>getattr\<close> with a default): a partial map from attribute names to
  values. Reading a missing attribute (\<^verbatim>\<open>ad.ad_id\<close>) raises \<^verbatim>\<open>AttributeError\<close>.
\<close>

type_synonym raw_ad = "string \<rightharpoonup> pyval"

definition attr :: "raw_ad \<Rightarrow> string \<Rightarrow> exn + pyval" where
  "attr ad name = (case ad name of None \<Rightarrow> Inl AttributeError | Some v \<Rightarrow> Inr v)"

definition hasattr :: "raw_ad \<Rightarrow> string \<Rightarrow> bool" where
  "hasattr ad name = (ad name \<noteq> None)"

definition getattr :: "raw_ad \<Rightarrow> string \<Rightarrow> pyval \<Rightarrow> pyval" where
  "getattr ad name dflt = (case ad name of None \<Rightarrow> dflt | Some v \<Rightarrow> v)"

text \<open>
  \<^verbatim>\<open>_extract_location\<close>: the \<^verbatim>\<open>name\<close> of a present, truthy \<^verbatim>\<open>location\<close>, else
  \<^verbatim>\<open>'Unknown'\<close>.
\<close>

definition extract_location :: "raw_ad \<Rightarrow> exn + pyval" where
  "extract_location ad =
     (case ad ''location'' of
        None \<Rightarrow> Inr (PStr ''Unknown'')
      | Some loc \<Rightarrow>
          if truthy loc then py_get loc ''name'' (PStr ''Unknown'')
          else Inr (PStr ''Unknown''))"

text \<open>
  \<^verbatim>\<open>v[0]\<close>: the first element of a list (\<^verbatim>\<open>IndexError\<close> when it is empty) or the first
  character of a string; a dict with string keys has no key \<^verbatim>\<open>0\<close> (\<^verbatim>\<open>KeyError\<close>); the
  other values are not subscriptable (\<^verbatim>\<open>TypeError\<close>).
\<close>

fun py_first :: "pyval \<Rightarrow> exn + pyval" where
  "py_first (PList []) = Inl IndexError"
| "py_first (PList (x # xs)) = Inr x"
| "py_first (PStr []) = Inl IndexError"
| "py_first (PStr (c # cs)) = Inr (PStr [c])"
| "py_first (PDict d) = Inl KeyError"
| "py_first _ = Inl TypeError"

text \<open>
  \<^verbatim>\<open>_extract_image\<close>:
  \<^verbatim>\<open>if hasattr(ad, 'images') and ad.images:
      return ad.images[0].get('url') if ad.images else None
  return None\<close>
\<close>

definition extract_image :: "raw_ad \<Rightarrow> exn + pyval" where
  "extract_image ad =
     (case ad ''images'' of
        None \<Rightarrow> Inr PNone
      | Some imgs \<Rightarrow>
          if truthy imgs then
            (if truthy imgs
             then bind_exn (py_first imgs) (\<lambda>img. py_get img ''url'' PNone)
             else Inr PNone)
          else Inr PNone)"

text \<open>
  Iterating a value (\<^verbatim>\<open>for img in v\<close>): a list yields its elements, a string its
  characters, a dict its keys; the other values are not iterable (\<^verbatim>\<open>TypeError\<close>).
\<close>

fun py_iter :: "pyval \<Rightarrow> exn + pyval list" where
  "py_iter (PList xs) = Inr xs"
| "py_iter (PStr s) = Inr (map (\<lambda>c. PStr [c]) s)"
| "py_iter (PDict d) = Inr (map (\<lambda>kv. PStr (fst kv)) d)"
| "py_iter _ = Inl TypeError"

text \<open>
  The comprehension \<^verbatim>\<open>[img.get('url') for img in ad.images if img.get('url')]\<close>, one
  element at a time: the filter's \<^verbatim>\<open>img.get('url')\<close> is evaluated first, and when it
  is truthy the element's \<^verbatim>\<open>img.get('url')\<close> is appended.
\<close>

fun collect_urls :: "pyval list \<Rightarrow> exn + pyval list" where
  "collect_urls [] = Inr []"
| "collect_urls (img # imgs) =
     bind_exn (py_get img ''url'' PNone) (\<lambda>c.
       if truthy c then
         bind_exn (py_get img ''url'' PNone) (\<lambda>u.
           bind_exn (collect_urls imgs) (\<lambda>us. Inr (u # us)))
       else collect_urls imgs)"

text \<open>\<^verbatim>\<open>_extract_all_images\<close>.\<close>

definition extract_all_images :: "raw_ad \<Rightarrow> exn + pyval" where
  "extract_all_images ad =
     (case ad ''images'' of
        None \<Rightarrow> Inr (PList [])
      | Some imgs \<Rightarrow>
          if truthy imgs then
            bind_exn (py_iter imgs) (\<lambda>xs.
              bind_exn (collect_urls xs) (\<lambda>us. Inr (PList us)))
          else Inr (PList []))"

text \<open>
  The expression
  \<^verbatim>\<open>getattr(ad, 'price', {}).get('value') if hasattr(ad, 'price') else None\<close>.
\<close>

definition extract_price :: "raw_ad \<Rightarrow> exn + pyval" where
  "extract_price ad =
     (if hasattr ad ''price'' then py_get (getattr ad ''price'' (PDict [])) ''value'' PNone
      else Inr PNone)"

text \<open>
  The optional car fields: \<^verbatim>\<open>if hasattr(ad, f): listing[f] = ad.f\<close>, for each field
  name in turn.
\<close>

fun add_optional :: "raw_ad \<Rightarrow> string list \<Rightarrow> pydict \<Rightarrow> pydict" where
  "add_optional ad [] d = d"
| "add_optional ad (f # fs) d =
     add_optional ad fs (case ad f of None \<Rightarrow> d | Some v \<Rightarrow> dict_set d f v)"

text \<open>
  The body of \<^verbatim>\<open>_parse_ad\<close> inside its \<^verbatim>\<open>try\<close>. The dict display evaluates its
  values in order; \<open>now\<close> is \<^verbatim>\<open>datetime.utcnow().isoformat()\<close> at this call and \<open>rp\<close>
  is \<^verbatim>\<open>repr\<close> (see \<open>py_str\<close>).
\<close>

definition parse_ad_body :: "(pyval \<Rightarrow> string) \<Rightarrow> string \<Rightarrow> raw_ad \<Rightarrow> exn + pydict" where
  "parse_ad_body rp now ad =
     bind_exn (attr ad ''ad_id'') (\<lambda>id1.
     bind_exn (extract_price ad) (\<lambda>price.
     bind_exn (extract_location ad) (\<lambda>loc.
     bind_exn (attr ad ''ad_id'') (\<lambda>id2.
     bind_exn (extract_image ad) (\<lambda>image.
       Inr (add_optional ad [''make'', ''model'', ''fuel_type'', ''transmission'']
         [(''listing_id'', PStr (py_str rp id1)),
          (''title'', getattr ad ''subject'' (PStr ''Unknown'')),
          (''price'', price),
          (''year'', getattr ad ''year'' PNone),
          (''mileage'', getattr ad ''mileage'' PNone),
          (''location'', loc),
          (''url'', PStr (''https://www.blocket.se/'' @ py_str rp id2)),
          (''image_url'', image),
          (''scraped_at'', PStr now),
          (''source'', PStr ''blocket''),
          (''category'', PStr ''car'')]))))))"

text \<open>\<^verbatim>\<open>_parse_ad\<close>: any exception of the body is logged and turned into \<^verbatim>\<open>None\<close>.\<close>

definition parse_ad :: "(pyval \<Rightarrow> string) \<Rightarrow> string \<Rightarrow> raw_ad \<Rightarrow> pydict option" where
  "parse_ad rp now ad =
     (case parse_ad_body rp now ad of Inl e \<Rightarrow> None | Inr listing \<Rightarrow> Some listing)"

text \<open>The body of \<^verbatim>\<open>_parse_ad_details\<close> inside its \<^verbatim>\<open>try\<close>.\<close>

definition parse_ad_details_body ::
  "(pyval \<Rightarrow> string) \<Rightarrow> string \<Rightarrow> raw_ad \<Rightarrow> exn + pydict" where
  "parse_ad_details_body rp now ad =
     bind_exn (attr ad ''ad_id'') (\<lambda>id1.
     bind_exn (extract_price ad) (\<lambda>price.
     bind_exn (extract_location ad) (\<lambda>loc.
     bind_exn (attr ad ''ad_id'') (\<lambda>id2.
     bind_exn (extract_all_images ad) (\<lambda>images.
       Inr (add_optional ad
         [''make'', ''model'', ''fuel_type'', ''transmission'',
          ''body_type'', ''color'', ''engine_power'']
         [(''listing_id'', PStr (py_str rp id1)),
          (''title'', getattr ad ''subject'' (PStr ''Unknown'')),
          (''description'', getattr ad ''body'' (PStr [])),
          (''price'', price),
          (''year'', getattr ad ''year'' PNone),
          (''mileage'', getattr ad ''mileage'' PNone),
          (''location'', loc),
          (''url'', PStr (''https://www.blocket.se/'' @ py_str rp id2)),
          (''images'', images),
          (''posted_date'', getattr ad ''list_time'' PNone),
          (''scraped_at'', PStr now),
          (''source'', PStr ''blocket''),
          (''category'', PStr ''car'')]))))))"

text \<open>\<^verbatim>\<open>_parse_ad_details\<close>.\<close>

definition parse_ad_details ::
  "(pyval \<Rightarrow> string) \<Rightarrow> string \<Rightarrow> raw_ad \<Rightarrow> pydict option" where
  "parse_ad_details rp now ad =
     (case parse_ad_details_body rp now ad of Inl e \<Rightarrow> None | Inr details \<Rightarrow> Some details)"

text \<open>
  The enums of the API wrapper that this module names; the wrapper's other members are
  \<open>OtherLocation\<close> and \<open>OtherSortOrder\<close>.
\<close>

datatype Location = STOCKHOLM | UPPSALA | GOTEBORG | OtherLocation string

datatype CarSortOrder = PRICE_ASC | LATEST | OtherSortOrder string

text \<open>The keyword arguments of \<^verbatim>\<open>search_cars\<close>, with the defaults of its signature.\<close>

record search_args =
  query :: "string option"
  locations :: "Location list option"
  price_from :: "int option"
  price_to :: "int option"
  year_from :: "int option"
  year_to :: "int option"
  mileage_from :: "int option"
  mileage_to :: "int option"
  sort_order :: CarSortOrder
  max_results :: int

definition default_args :: search_args where
  "default_args =
     \<lparr>query = None, locations = None, price_from = None, price_to = None,
      year_from = None, year_to = None, mileage_from = None, mileage_to = None,
      sort_order = PRICE_ASC, max_results = 100\<rparr>"

text \<open>What \<^verbatim>\<open>search_cars\<close> hands to \<^verbatim>\<open>self.api.search_car\<close>.\<close>

record api_request =
  req_query :: "string option"
  req_locations :: "Location list"
  req_price_from :: "int option"
  req_price_to :: "int option"
  req_year_from :: "int option"
  req_year_to :: "int option"
  req_mileage_from :: "int option"
  req_mileage_to :: "int option"
  req_sort_order :: CarSortOrder

text \<open>
  The marketplace API is outside this module: \<^verbatim>\<open>search_car\<close> either raises or returns
  the ads, in the API's order.
\<close>

type_synonym api = "api_request \<Rightarrow> exn + raw_ad list"

text \<open>\<^verbatim>\<open>locations or [Location.STOCKHOLM]\<close>: \<^verbatim>\<open>None\<close> and the empty list are falsy.\<close>

definition locations_or_default :: "Location list option \<Rightarrow> Location list" where
  "locations_or_default ls =
     (case ls of None \<Rightarrow> [STOCKHOLM] | Some [] \<Rightarrow> [STOCKHOLM] | Some (l # ls') \<Rightarrow> l # ls')"

definition make_request :: "search_args \<Rightarrow> api_request" where
  "make_request a =
     \<lparr>req_query = query a, req_locations = locations_or_default (locations a),
      req_price_from = price_from a, req_price_to = price_to a,
      req_year_from = year_from a, req_year_to = year_to a,
      req_mileage_from = mileage_from a, req_mileage_to = mileage_to a,
      req_sort_order = sort_order a\<rparr>"

text \<open>
  The loop of \<^verbatim>\<open>search_cars\<close>:
  \<^verbatim>\<open>for idx, ad in enumerate(results):
      if idx >= max_results: break
      try:
          listing = self._parse_ad(ad)
          if listing: listings.append(listing)
      except Exception as e: ...; continue\<close>
  \<open>clock idx\<close> is the time at which ad number \<open>idx\<close> is parsed. \<^verbatim>\<open>_parse_ad\<close> raises
  nothing, so the inner handler has nothing to catch; a dict is truthy when it is not
  empty.
\<close>

fun search_loop ::
  "(pyval \<Rightarrow> string) \<Rightarrow> (nat \<Rightarrow> string) \<Rightarrow> int \<Rightarrow> nat \<Rightarrow> raw_ad list \<Rightarrow> pydict list
     \<Rightarrow> pydict list" where
  "search_loop rp clock mx idx [] listings = listings"
| "search_loop rp clock mx idx (ad # ads) listings =
     (if int idx \<ge> mx then listings
      else
        (case parse_ad rp (clock idx) ad of
           None \<Rightarrow> search_loop rp clock mx (Suc idx) ads listings
         | Some listing \<Rightarrow>
             if listing \<noteq> [] then search_loop rp clock mx (Suc idx) ads (listings @ [listing])
             else search_loop rp clock mx (Suc idx) ads listings))"

text \<open>
  \<^verbatim>\<open>search_cars\<close>: an exception of the API call is caught by the outer handler, which
  returns the empty list.
\<close>

definition search_cars ::
  "(pyval \<Rightarrow> string) \<Rightarrow> (nat \<Rightarrow> string) \<Rightarrow> api \<Rightarrow> search_args \<Rightarrow> pydict list" where
  "search_cars rp clock api_search_car a =
     (case api_search_car (make_request a) of
        Inl e \<Rightarrow> []
      | Inr results \<Rightarrow> search_loop rp clock (max_results a) 0 results [])"

text \<open>\<^verbatim>\<open>get_ad_details\<close>: a failed lookup gives \<^verbatim>\<open>None\<close>.\<close>

definition get_ad_details ::
  "(pyval \<Rightarrow> string) \<Rightarrow> string \<Rightarrow> (int \<Rightarrow> exn + raw_ad) \<Rightarrow> int \<Rightarrow> pydict option" where
  "get_ad_details rp now api_get_ad ad_id =
     (case api_get_ad ad_id of Inl e \<Rightarrow> None | Inr ad \<Rightarrow> parse_ad_details rp now ad)"

section \<open>The publisher: \<^verbatim>\<open>CarDataKafkaProducer\<close>\<close>

text \<open>
  The Kafka client library is outside this module. What the module needs of it is a
  parameter, a client over some state \<open>'s\<close>. Its \<^verbatim>\<open>send\<close> first waits for the metadata
  of the topic, which raises when no broker answers in time (\<open>await_metadata\<close>); only then
  does it apply the two serializers to the key and the value, letting their exceptions
  through unchanged; then it submits the serialized message, and \<^verbatim>\<open>future.get\<close> waits
  for the acknowledgement up to the timeout given (\<open>deliver\<close>, which stands for both).
  The client also flushes, or raises, and closes. The two serializers are the module's
  own: the lambdas handed to the \<^verbatim>\<open>KafkaProducer\<close> constructor.
\<close>

record message =
  msg_topic :: string
  msg_key :: "string option"
  msg_value :: pydict

record 's kafka_client =
  await_metadata :: "'s \<Rightarrow> string \<Rightarrow> exn option \<times> 's"
  deliver :: "'s \<Rightarrow> message \<Rightarrow> nat \<Rightarrow> exn option \<times> 's"
  flush :: "'s \<Rightarrow> exn option \<times> 's"
  close_client :: "'s \<Rightarrow> 's"

text \<open>\<^verbatim>\<open>key_serializer=lambda k: k.encode('utf-8') if k else None\<close>: only a str has \<^verbatim>\<open>encode\<close>.\<close>

definition key_serializer :: "pyval \<Rightarrow> exn + string option" where
  "key_serializer k =
     (if truthy k then (case k of PStr s \<Rightarrow> Inr (Some s) | _ \<Rightarrow> Inl AttributeError)
      else Inr None)"

text \<open>
  \<^verbatim>\<open>json.dumps\<close> raises \<^verbatim>\<open>TypeError\<close> on an object it has no encoding for, at any depth.
\<close>

fun json_ok :: "pyval \<Rightarrow> bool" where
  "json_ok (PList xs) = list_all json_ok xs"
| "json_ok (PDict d) = list_all json_ok (map snd d)"
| "json_ok (PObj c) = False"
| "json_ok v = True"

text \<open>
  \<^verbatim>\<open>value_serializer=lambda v: json.dumps(v).encode('utf-8')\<close>. The dict stands for its
  JSON text.
\<close>

definition value_serializer :: "pydict \<Rightarrow> exn + pydict" where
  "value_serializer v = (if json_ok (PDict v) then Inr v else Inl TypeError)"

text \<open>
  The message that \<^verbatim>\<open>self.producer.send(self.topic, key=key, value=listing)\<close> makes of
  its arguments, when both serializers succeed; the key serializer runs first.
\<close>

definition make_message :: "string \<Rightarrow> pyval \<Rightarrow> pydict \<Rightarrow> exn + message" where
  "make_message topic key v =
     bind_exn (key_serializer key) (\<lambda>kb.
       bind_exn (value_serializer v) (\<lambda>vb.
         Inr \<lparr>msg_topic = topic, msg_key = kb, msg_value = vb\<rparr>))"

text \<open>\<^verbatim>\<open>key = listing.get('listing_id', 'unknown')\<close>.\<close>

definition listing_key :: "pydict \<Rightarrow> pyval" where
  "listing_key listing = dict_get listing ''listing_id'' (PStr ''unknown'')"

text \<open>
  The body of the \<^verbatim>\<open>try\<close> of \<^verbatim>\<open>send_listing\<close>: \<^verbatim>\<open>self.producer.send(...)\<close>, then
  \<^verbatim>\<open>future.get(timeout=10)\<close>. The result is the exception it raises, if any: one of
  the wait for the metadata, else one of a serializer, else one of the submission or of
  the wait for the acknowledgement.
\<close>

definition send_attempt ::
  "'s kafka_client \<Rightarrow> string \<Rightarrow> 's \<Rightarrow> pydict \<Rightarrow> exn option \<times> 's" where
  "send_attempt cl topic st listing =
     (case await_metadata cl st topic of
        (Some e, st1) \<Rightarrow> (Some e, st1)
      | (None, st1) \<Rightarrow>
          (case make_message topic (listing_key listing) listing of
             Inl e \<Rightarrow> (Some e, st1)
           | Inr m \<Rightarrow> deliver cl st1 m 10))"

text \<open>
  \<^verbatim>\<open>send_listing\<close>: \<^verbatim>\<open>True\<close> after the acknowledgement; a \<^verbatim>\<open>KafkaError\<close> is caught and
  gives \<^verbatim>\<open>False\<close>; the handler names no other exception.
\<close>

definition send_listing ::
  "'s kafka_client \<Rightarrow> string \<Rightarrow> 's \<Rightarrow> pydict \<Rightarrow> (exn + bool) \<times> 's" where
  "send_listing cl topic st listing =
     (case send_attempt cl topic st listing of
        (None, st') \<Rightarrow> (Inr True, st')
      | (Some e, st') \<Rightarrow>
          (if is_kafka_error e then (Inr False, st') else (Inl e, st')))"

text \<open>
  The loop of \<^verbatim>\<open>send_batch\<close>, with the tally so far; an exception that
  \<^verbatim>\<open>send_listing\<close> lets through ends it.
\<close>

fun send_batch_loop ::
  "'s kafka_client \<Rightarrow> string \<Rightarrow> 's \<Rightarrow> pydict list \<Rightarrow> nat \<Rightarrow> (exn + nat) \<times> 's" where
  "send_batch_loop cl topic st [] success_count = (Inr success_count, st)"
| "send_batch_loop cl topic st (listing # rest) success_count =
     (case send_listing cl topic st listing of
        (Inl e, st') \<Rightarrow> (Inl e, st')
      | (Inr ok, st') \<Rightarrow>
          send_batch_loop cl topic st' rest
            (if ok then success_count + 1 else success_count))"

text \<open>\<^verbatim>\<open>send_batch\<close>: the loop, then \<^verbatim>\<open>self.producer.flush()\<close>, then the tally.\<close>

definition send_batch ::
  "'s kafka_client \<Rightarrow> string \<Rightarrow> 's \<Rightarrow> pydict list \<Rightarrow> (exn + nat) \<times> 's" where
  "send_batch cl topic st listings =
     (case send_batch_loop cl topic st listings 0 of
        (Inl e, st') \<Rightarrow> (Inl e, st')
      | (Inr success_count, st') \<Rightarrow>
          (case flush cl st' of
             (Some e, st'') \<Rightarrow> (Inl e, st'')
           | (None, st'') \<Rightarrow> (Inr success_count, st'')))"

text \<open>
  The result of each \<^verbatim>\<open>send_listing\<close> call of a batch, in order, the client's state
  carried from one call to the next (calls after an escaping exception do not happen).
\<close>

fun send_results ::
  "'s kafka_client \<Rightarrow> string \<Rightarrow> 's \<Rightarrow> pydict list \<Rightarrow> (exn + bool) list" where
  "send_results cl topic st [] = []"
| "send_results cl topic st (listing # rest) =
     (case send_listing cl topic st listing of
        (Inl e, st') \<Rightarrow> [Inl e]
      | (Inr ok, st') \<Rightarrow> Inr ok # send_results cl topic st' rest)"

text \<open>
  What a run does besides returning a value: connection attempts, sleeps (with their
  length), the dry-run log lines and closing the producer.
\<close>

datatype event =
    EvConnect nat
  | EvSleep nat
  | EvDryRun nat
  | EvSample pyval pyval pyval
  | EvClose

text \<open>
  \<^verbatim>\<open>_connect\<close>: \<^verbatim>\<open>for attempt in range(max_retries)\<close> with \<^verbatim>\<open>max_retries = 3\<close>. The
  constructor of the client either raises or gives a client (its initial state);
  \<open>connector attempt\<close> is what it does at that attempt. Only a \<^verbatim>\<open>KafkaError\<close> is caught;
  it is followed by \<^verbatim>\<open>time.sleep(5)\<close> when \<^verbatim>\<open>attempt < max_retries - 1\<close> and re-raised
  otherwise. The result is the producer (\<^verbatim>\<open>None\<close> when the loop ends without one) or
  the exception, and the events in order.
\<close>

fun connect_loop ::
  "(nat \<Rightarrow> exn + 's) \<Rightarrow> int \<Rightarrow> nat list \<Rightarrow> event list \<Rightarrow> (exn + 's option) \<times> event list" where
  "connect_loop connector max_retries [] evs = (Inr None, evs)"
| "connect_loop connector max_retries (attempt # rest) evs =
     (case connector attempt of
        Inr st \<Rightarrow> (Inr (Some st), evs @ [EvConnect attempt])
      | Inl e \<Rightarrow>
          if is_kafka_error e then
            (if int attempt < max_retries - 1
             then connect_loop connector max_retries rest (evs @ [EvConnect attempt, EvSleep 5])
             else (Inl e, evs @ [EvConnect attempt]))
          else (Inl e, evs @ [EvConnect attempt]))"

definition connect :: "(nat \<Rightarrow> exn + 's) \<Rightarrow> (exn + 's option) \<times> event list" where
  "connect connector = connect_loop connector 3 [0 ..< 3] []"

section \<open>The driver: \<^verbatim>\<open>main\<close>\<close>

text \<open>
  The statistics at the end of \<^verbatim>\<open>main\<close>. \<^verbatim>\<open>l.get('price')\<close> and \<^verbatim>\<open>l.get('year')\<close>
  select the records; their truthiness decides, so \<^verbatim>\<open>None\<close>, a missing key and \<open>0\<close>
  are all left out.
\<close>

definition has_price :: "pydict \<Rightarrow> bool" where
  "has_price l = truthy (dict_get l ''price'' PNone)"

definition has_year :: "pydict \<Rightarrow> bool" where
  "has_year l = truthy (dict_get l ''year'' PNone)"

text \<open>The value of an int or a bool in arithmetic and comparisons; nothing for the rest.\<close>

fun py_num :: "pyval \<Rightarrow> int option" where
  "py_num (PInt i) = Some i"
| "py_num (PBool b) = Some (if b then 1 else 0)"
| "py_num _ = None"

text \<open>
  \<^verbatim>\<open>sum(l['price'] for l in all_listings if l.get('price'))\<close>, from the accumulator
  \<open>acc\<close> (initially 0): adding a value that is not a number to an int raises
  \<^verbatim>\<open>TypeError\<close>.
\<close>

fun sum_prices :: "pydict list \<Rightarrow> int \<Rightarrow> exn + int" where
  "sum_prices [] acc = Inr acc"
| "sum_prices (l # ls) acc =
     (if has_price l then
        bind_exn (dict_item l ''price'') (\<lambda>p.
          case py_num p of None \<Rightarrow> Inl TypeError | Some n \<Rightarrow> sum_prices ls (acc + n))
      else sum_prices ls acc)"

text \<open>
  \<^verbatim>\<open>avg_price = sum(...) / len([l for l in all_listings if l.get('price')])\<close>: the sum is
  evaluated first, then the length, then the division, which raises
  \<^verbatim>\<open>ZeroDivisionError\<close> on a zero divisor. The quotient is kept exact here: Python
  makes it a float, rounding it, and raises \<^verbatim>\<open>OverflowError\<close> when it is beyond the
  range of a float; neither is part of this model.
\<close>

definition average_price :: "pydict list \<Rightarrow> exn + real" where
  "average_price all_listings =
     bind_exn (sum_prices all_listings 0) (\<lambda>total.
       let n = length (filter has_price all_listings) in
       if n = 0 then Inl ZeroDivisionError else Inr (real_of_int total / real n))"

text \<open>\<^verbatim>\<open>years = [l['year'] for l in all_listings if l.get('year')]\<close>.\<close>

fun collect_years :: "pydict list \<Rightarrow> exn + pyval list" where
  "collect_years [] = Inr []"
| "collect_years (l # ls) =
     (if has_year l then
        bind_exn (dict_item l ''year'') (\<lambda>y.
          bind_exn (collect_years ls) (\<lambda>ys. Inr (y # ys)))
      else collect_years ls)"

text \<open>
  \<^verbatim>\<open>a < b\<close>: numeric on ints and bools; what it does on other values (raise or
  compare) is the parameter \<open>lt\<close>.
\<close>

definition py_less :: "(pyval \<Rightarrow> pyval \<Rightarrow> exn + bool) \<Rightarrow> pyval \<Rightarrow> pyval \<Rightarrow> exn + bool" where
  "py_less lt a b =
     (case (py_num a, py_num b) of (Some x, Some y) \<Rightarrow> Inr (x < y) | _ \<Rightarrow> lt a b)"

text \<open>
  \<^verbatim>\<open>min\<close> and \<^verbatim>\<open>max\<close> of a non-empty list: the first element, replaced by each later
  one that is smaller (\<^verbatim>\<open>item < best\<close>), respectively greater (\<^verbatim>\<open>item > best\<close>).
\<close>

fun py_min_loop ::
  "(pyval \<Rightarrow> pyval \<Rightarrow> exn + bool) \<Rightarrow> pyval \<Rightarrow> pyval list \<Rightarrow> exn + pyval" where
  "py_min_loop lt best [] = Inr best"
| "py_min_loop lt best (item # items) =
     bind_exn (py_less lt item best) (\<lambda>c. py_min_loop lt (if c then item else best) items)"

fun py_max_loop ::
  "(pyval \<Rightarrow> pyval \<Rightarrow> exn + bool) \<Rightarrow> pyval \<Rightarrow> pyval list \<Rightarrow> exn + pyval" where
  "py_max_loop lt best [] = Inr best"
| "py_max_loop lt best (item # items) =
     bind_exn (py_less lt best item) (\<lambda>c. py_max_loop lt (if c then item else best) items)"

text \<open>\<^verbatim>\<open>if years: ... min(years) ... max(years)\<close>.\<close>

definition year_range ::
  "(pyval \<Rightarrow> pyval \<Rightarrow> exn + bool) \<Rightarrow> pydict list \<Rightarrow> exn + (pyval \<times> pyval) option" where
  "year_range lt all_listings =
     bind_exn (collect_years all_listings) (\<lambda>years.
       case years of
         [] \<Rightarrow> Inr None
       | y # ys \<Rightarrow>
           bind_exn (py_min_loop lt y ys) (\<lambda>lo.
             bind_exn (py_max_loop lt y ys) (\<lambda>hi. Inr (Some (lo, hi)))))"

text \<open>The block \<^verbatim>\<open>if all_listings: ...\<close>: the mean price, then the year range.\<close>

definition statistics ::
  "(pyval \<Rightarrow> pyval \<Rightarrow> exn + bool) \<Rightarrow> pydict list
     \<Rightarrow> exn + (real option \<times> (pyval \<times> pyval) option)" where
  "statistics lt all_listings =
     (if all_listings \<noteq> [] then
        bind_exn (average_price all_listings) (\<lambda>avg.
          bind_exn (year_range lt all_listings) (\<lambda>yr. Inr (Some avg, yr)))
      else Inr (None, None))"

text \<open>The three built-in search profiles, by name.\<close>

definition search_configs :: "(string \<times> search_args) list" where
  "search_configs =
     [(''All Stockholm Cars'',
       default_args\<lparr>locations := Some [STOCKHOLM], sort_order := LATEST, max_results := 50\<rparr>),
      (''Potential Classics (15-30 years old)'',
       default_args\<lparr>locations := Some [STOCKHOLM, UPPSALA, GOTEBORG],
         year_from := Some 1995, year_to := Some 2010,
         sort_order := PRICE_ASC, max_results := 100\<rparr>),
      (''Budget Cars Under 50k'',
       default_args\<lparr>locations := Some [STOCKHOLM], price_to := Some 50000,
         sort_order := PRICE_ASC, max_results := 50\<rparr>)]"

text \<open>
  What \<^verbatim>\<open>main\<close> holds while it runs: the producer (\<^verbatim>\<open>None\<close> in dry-run mode, else the
  client's state), the listings collected so far and the events so far.
\<close>

record 's driver_state =
  ds_producer :: "'s option"
  ds_all :: "pydict list"
  ds_events :: "event list"

text \<open>
  The producer's construction in \<^verbatim>\<open>main\<close>: any exception of it is caught
  (\<^verbatim>\<open>except Exception\<close>) and leaves \<^verbatim>\<open>kafka_producer = None\<close>.
\<close>

definition init_producer :: "(nat \<Rightarrow> exn + 's) \<Rightarrow> 's option \<times> event list" where
  "init_producer connector =
     (case connect connector of
        (Inl e, evs) \<Rightarrow> (None, evs)
      | (Inr p, evs) \<Rightarrow> (p, evs))"

text \<open>
  The dry-run log lines: \<^verbatim>\<open>for listing in listings[:3]\<close>, each reading
  \<^verbatim>\<open>listing['title']\<close>, \<^verbatim>\<open>listing['price']\<close> and \<^verbatim>\<open>listing['year']\<close>.
\<close>

fun preview :: "pydict list \<Rightarrow> exn + event list" where
  "preview [] = Inr []"
| "preview (listing # rest) =
     bind_exn (dict_item listing ''title'') (\<lambda>t.
     bind_exn (dict_item listing ''price'') (\<lambda>p.
     bind_exn (dict_item listing ''year'') (\<lambda>y.
     bind_exn (preview rest) (\<lambda>evs. Inr (EvSample t p y # evs)))))"

text \<open>The records the dry-run log can print: those with the three keys it reads.\<close>

abbreviation previewable :: "pydict \<Rightarrow> bool" where
  "previewable l \<equiv>
     map_of l ''title'' \<noteq> None \<and> map_of l ''price'' \<noteq> None \<and> map_of l ''year'' \<noteq> None"

text \<open>
  One round of the loop over the profiles: the search, and for a non-empty result the
  batch send or the dry-run log; then \<^verbatim>\<open>time.sleep(2)\<close>. An exception that escapes ends
  \<^verbatim>\<open>main\<close>; it is returned with the state reached.
\<close>

definition run_profile ::
  "(pyval \<Rightarrow> string) \<Rightarrow> (nat \<Rightarrow> string) \<Rightarrow> api \<Rightarrow> 's kafka_client \<Rightarrow> string
     \<Rightarrow> string \<times> search_args \<Rightarrow> 's driver_state \<Rightarrow> exn option \<times> 's driver_state" where
  "run_profile rp clock api_search_car cl topic config ds =
     (let listings = search_cars rp clock api_search_car (snd config) in
      if listings \<noteq> [] then
        (let ds1 = ds\<lparr>ds_all := ds_all ds @ listings\<rparr> in
         case ds_producer ds1 of
           Some st \<Rightarrow>
             (case send_batch cl topic st listings of
                (Inl e, st') \<Rightarrow> (Some e, ds1\<lparr>ds_producer := Some st'\<rparr>)
              | (Inr n, st') \<Rightarrow>
                  (None, ds1\<lparr>ds_producer := Some st',
                              ds_events := ds_events ds1 @ [EvSleep 2]\<rparr>))
         | None \<Rightarrow>
             (case preview (take 3 listings) of
                Inl e \<Rightarrow> (Some e, ds1\<lparr>ds_events := ds_events ds1 @ [EvDryRun (length listings)]\<rparr>)
              | Inr samples \<Rightarrow>
                  (None, ds1\<lparr>ds_events :=
                     ds_events ds1 @ [EvDryRun (length listings)] @ samples @ [EvSleep 2]\<rparr>)))
      else (None, ds\<lparr>ds_events := ds_events ds @ [EvSleep 2]\<rparr>))"

text \<open>The loop over the profiles; \<open>clock n\<close> is the clock during profile number \<open>n\<close>.\<close>

fun run_profiles ::
  "(pyval \<Rightarrow> string) \<Rightarrow> (nat \<Rightarrow> nat \<Rightarrow> string) \<Rightarrow> api \<Rightarrow> 's kafka_client \<Rightarrow> string
     \<Rightarrow> nat \<Rightarrow> (string \<times> search_args) list \<Rightarrow> 's driver_state
     \<Rightarrow> exn option \<times> 's driver_state" where
  "run_profiles rp clock api_search_car cl topic n [] ds = (None, ds)"
| "run_profiles rp clock api_search_car cl topic n (config # rest) ds =
     (case run_profile rp (clock n) api_search_car cl topic config ds of
        (Some e, ds') \<Rightarrow> (Some e, ds')
      | (None, ds') \<Rightarrow> run_profiles rp clock api_search_car cl topic (Suc n) rest ds')"

text \<open>
  The outcome of \<^verbatim>\<open>main\<close>: the exception that ended it, if any, the final state, and
  the statistics it logged.
\<close>

record 's report =
  rep_error :: "exn option"
  rep_state :: "'s driver_state"
  rep_avg_price :: "real option"
  rep_year_range :: "(pyval \<times> pyval) option"

text \<open>\<^verbatim>\<open>if kafka_producer: kafka_producer.close()\<close>.\<close>

definition close_producer :: "'s kafka_client \<Rightarrow> 's driver_state \<Rightarrow> 's driver_state" where
  "close_producer cl ds =
     (case ds_producer ds of
        None \<Rightarrow> ds
      | Some st \<Rightarrow>
          ds\<lparr>ds_producer := Some (close_client cl st), ds_events := ds_events ds @ [EvClose]\<rparr>)"

text \<open>
  The first part of \<^verbatim>\<open>main\<close>, once the scraper is constructed: the producer, then
  the loop over the profiles, publishing to the topic \<^verbatim>\<open>raw-car-listings\<close>.
\<close>

definition run_all ::
  "(pyval \<Rightarrow> string) \<Rightarrow> (nat \<Rightarrow> nat \<Rightarrow> string) \<Rightarrow> api \<Rightarrow> (nat \<Rightarrow> exn + 's) \<Rightarrow> 's kafka_client
     \<Rightarrow> exn option \<times> 's driver_state" where
  "run_all rp clock api_search_car connector cl =
     (case init_producer connector of (producer, evs) \<Rightarrow>
        run_profiles rp clock api_search_car cl ''raw-car-listings'' 0 search_configs
          \<lparr>ds_producer = producer, ds_all = [], ds_events = evs\<rparr>)"

text \<open>
  \<^verbatim>\<open>main\<close>: the producer and the profiles, the statistics, the cleanup. Nothing in
  \<^verbatim>\<open>main\<close> catches an exception of the loop or of the statistics, so either ends the
  run before the cleanup.
\<close>

definition main ::
  "(pyval \<Rightarrow> string) \<Rightarrow> (pyval \<Rightarrow> pyval \<Rightarrow> exn + bool) \<Rightarrow> (nat \<Rightarrow> nat \<Rightarrow> string) \<Rightarrow> api
     \<Rightarrow> (nat \<Rightarrow> exn + 's) \<Rightarrow> 's kafka_client \<Rightarrow> 's report" where
  "main rp lt clock api_search_car connector cl =
     (case run_all rp clock api_search_car connector cl of
        (Some e, ds) \<Rightarrow>
          \<lparr>rep_error = Some e, rep_state = ds, rep_avg_price = None, rep_year_range = None\<rparr>
      | (None, ds) \<Rightarrow>
          (case statistics lt (ds_all ds) of
             Inl e \<Rightarrow>
               \<lparr>rep_error = Some e, rep_state = ds,
                rep_avg_price = None, rep_year_range = None\<rparr>
           | Inr (avg, yr) \<Rightarrow>
               \<lparr>rep_error = None, rep_state = close_producer cl ds,
                rep_avg_price = avg, rep_year_range = yr\<rparr>))"

section \<open>Example inputs\<close>

text \<open>
  Concrete inputs on which the theorems below are exercised: ads as the API may return
  them, a connector that never reaches a broker, and clients: one that acknowledges
  everything, one whose broker fails every delivery, one whose broker never answers the
  request for metadata, one that fails the delivery of the key \<^verbatim>\<open>2\<close>, one whose
  delivery raises an exception that is no \<^verbatim>\<open>KafkaError\<close>, and one that keeps the
  messages it was given.
\<close>

abbreviation zero_price_ad :: raw_ad where
  "zero_price_ad \<equiv> [''ad_id'' \<mapsto> PInt 1, ''price'' \<mapsto> PDict [(''value'', PInt 0)]]"

abbreviation no_broker :: "nat \<Rightarrow> exn + unit" where
  "no_broker \<equiv> (\<lambda>attempt. Inl (KafkaError ''NoBrokersAvailable''))"

abbreviation idle_client :: "unit kafka_client" where
  "idle_client \<equiv>
     \<lparr>await_metadata = (\<lambda>st topic. (None, st)), deliver = (\<lambda>st m t. (None, st)),
      flush = (\<lambda>st. (None, st)), close_client = (\<lambda>st. st)\<rparr>"

abbreviation no_order :: "pyval \<Rightarrow> pyval \<Rightarrow> exn + bool" where
  "no_order \<equiv> (\<lambda>a b. Inl TypeError)"

abbreviation nameless_ad :: raw_ad where
  "nameless_ad \<equiv>
     [''subject'' \<mapsto> PStr ''Volvo V70'', ''price'' \<mapsto> PDict [(''value'', PInt 45000)]]"

abbreviation pictured_ad :: raw_ad where
  "pictured_ad \<equiv>
     [''ad_id'' \<mapsto> PInt 7,
      ''images'' \<mapsto> PList
         [PDict [(''url'', PStr ''a.jpg'')], PDict [(''url'', PStr [])], PDict [],
          PDict [(''url'', PStr ''a.jpg'')], PDict [(''url'', PStr ''b.jpg'')]]]"

abbreviation budget_profile :: search_args where
  "budget_profile \<equiv>
     default_args\<lparr>locations := Some [STOCKHOLM], price_to := Some 50000,
       sort_order := PRICE_ASC, max_results := 50\<rparr>"

abbreviation broker_down :: "unit kafka_client" where
  "broker_down \<equiv>
     \<lparr>await_metadata = (\<lambda>st topic. (None, st)),
      deliver = (\<lambda>st m t. (Some (KafkaError ''KafkaTimeoutError''), st)),
      flush = (\<lambda>st. (None, st)), close_client = (\<lambda>st. st)\<rparr>"

abbreviation picky_client :: "unit kafka_client" where
  "picky_client \<equiv>
     \<lparr>await_metadata = (\<lambda>st topic. (None, st)),
      deliver = (\<lambda>st m t. if msg_key m = Some ''2''
                            then (Some (KafkaError ''KafkaTimeoutError''), st) else (None, st)),
      flush = (\<lambda>st. (None, st)), close_client = (\<lambda>st. st)\<rparr>"

abbreviation recording_client :: "message list kafka_client" where
  "recording_client \<equiv>
     \<lparr>await_metadata = (\<lambda>st topic. (None, st)), deliver = (\<lambda>st m t. (None, st @ [m])),
      flush = (\<lambda>st. (None, st)), close_client = (\<lambda>st. st)\<rparr>"

abbreviation unreachable_client :: "unit kafka_client" where
  "unreachable_client \<equiv>
     \<lparr>await_metadata = (\<lambda>st topic. (Some (KafkaError ''KafkaTimeoutError''), st)),
      deliver = (\<lambda>st m t. (None, st)),
      flush = (\<lambda>st. (None, st)), close_client = (\<lambda>st. st)\<rparr>"

abbreviation faulty_client :: "unit kafka_client" where
  "faulty_client \<equiv>
     \<lparr>await_metadata = (\<lambda>st topic. (None, st)),
      deliver = (\<lambda>st m t. (Some (OtherError ''AssertionError''), st)),
      flush = (\<lambda>st. (None, st)), close_client = (\<lambda>st. st)\<rparr>"

abbreviation half_pictured_ad :: raw_ad where
  "half_pictured_ad \<equiv>
     [''ad_id'' \<mapsto> PInt 8,
      ''images'' \<mapsto> PList [PDict [(''url'', PStr ''a.jpg'')], PStr ''b.jpg'']]"

section \<open>The fetcher\<close>

lemma bind_exn_Inl [simp]: "bind_exn (Inl e) f = Inl e"
  by (simp add: bind_exn_def)

lemma bind_exn_Inr [simp]: "bind_exn (Inr x) f = f x"
  by (simp add: bind_exn_def)

lemma bind_exn_eq_Inr:
  "bind_exn m f = Inr y \<longleftrightarrow> (\<exists>x. m = Inr x \<and> f x = Inr y)"
  by (cases m) auto

lemma map_of_dict_set:
  "map_of (dict_set d k v) k' = (if k' = k then Some v else map_of d k')"
  by (induction d) auto

lemma map_of_add_optional:
  "k \<notin> set fs \<Longrightarrow> map_of (add_optional ad fs d) k = map_of d k"
  by (induction fs arbitrary: d) (auto simp: map_of_dict_set split: option.splits)

lemma dict_set_not_Nil: "dict_set d k v \<noteq> []"
  by (cases d) (auto split: if_splits)

lemma add_optional_not_Nil: "d \<noteq> [] \<Longrightarrow> add_optional ad fs d \<noteq> []"
  by (induction fs arbitrary: d) (auto simp: dict_set_not_Nil split: option.splits)

text \<open>
  C6. An ad without the attribute \<^verbatim>\<open>ad_id\<close> yields no record on either path:
  \<^verbatim>\<open>_parse_ad\<close> and \<^verbatim>\<open>_parse_ad_details\<close> both return \<^verbatim>\<open>None\<close>, and the loop of
  \<^verbatim>\<open>search_cars\<close> goes on to the next ad with its list unchanged.
\<close>

theorem parse_ad_requires_ad_id:
  assumes "ad ''ad_id'' = None"
  shows "parse_ad rp now ad = None
    \<and> parse_ad_details rp now ad = None
    \<and> search_loop rp clock mx idx (ad # ads) listings =
        (if int idx \<ge> mx then listings else search_loop rp clock mx (Suc idx) ads listings)"
  using assms
  by (simp add: parse_ad_def parse_ad_body_def parse_ad_details_def parse_ad_details_body_def
      attr_def)

text \<open>An ad with a title and a price but no \<^verbatim>\<open>ad_id\<close>.\<close>

theorem parse_ad_requires_ad_id_witness:
  "nameless_ad ''ad_id'' = None
   \<and> parse_ad (\<lambda>v. []) ''t'' nameless_ad = None
   \<and> parse_ad_details (\<lambda>v. []) ''t'' nameless_ad = None
   \<and> search_loop (\<lambda>v. []) (\<lambda>i. ''t'') 50 0 [nameless_ad, zero_price_ad] [] =
       search_loop (\<lambda>v. []) (\<lambda>i. ''t'') 50 1 [zero_price_ad] []"
proof -
  have h: "nameless_ad ''ad_id'' = None"
    by simp
  from parse_ad_requires_ad_id
    [of nameless_ad "\<lambda>v. []" "''t''" "\<lambda>i. ''t''" 50 0 "[zero_price_ad]" "[]", OF h] h
  show ?thesis
    by (simp del: search_loop.simps)
qed

text \<open>
  C7. When the API call of \<^verbatim>\<open>search_cars\<close> raises, the result is the empty list, the
  same as for an API that returns no ad at all.
\<close>

theorem search_cars_api_failure:
  assumes "api_search_car (make_request a) = Inl e"
  shows "search_cars rp clock api_search_car a = []
    \<and> search_cars rp clock api_search_car a = search_cars rp clock (\<lambda>r. Inr []) a"
  using assms by (simp add: search_cars_def)

text \<open>A search whose API call fails with a connection error.\<close>

theorem search_cars_api_failure_witness:
  "search_cars (\<lambda>v. []) (\<lambda>i. ''t'') (\<lambda>r. Inl (OtherError ''ConnectionError'')) budget_profile = []"
proof -
  have h: "(\<lambda>r. Inl (OtherError ''ConnectionError'') :: exn + raw_ad list) (make_request budget_profile)
      = Inl (OtherError ''ConnectionError'')"
    by simp
  from search_cars_api_failure [of "\<lambda>r. Inl (OtherError ''ConnectionError'')", OF h]
  show ?thesis
    by blast
qed

lemma extract_image_Inr:
  assumes "extract_image ad = Inr u"
  shows "u = (case ad ''images'' of
                Some (PList (PDict d # rest)) \<Rightarrow> dict_get d ''url'' PNone
              | _ \<Rightarrow> PNone)"
proof (cases "ad ''images''")
  case None
  with assms show ?thesis by (simp add: extract_image_def)
next
  case (Some imgs)
  show ?thesis
  proof (cases "truthy imgs")
    case False
    with Some assms show ?thesis
      by (cases imgs) (auto simp: extract_image_def split: list.splits)
  next
    case True
    with Some assms have "bind_exn (py_first imgs) (\<lambda>img. py_get img ''url'' PNone) = Inr u"
      by (simp add: extract_image_def)
    then obtain img where f: "py_first imgs = Inr img" and g: "py_get img ''url'' PNone = Inr u"
      by (auto simp: bind_exn_eq_Inr)
    from g obtain d where d: "img = PDict d" "u = dict_get d ''url'' PNone"
      by (cases img) auto
    from f d have "\<exists>rest. imgs = PList (PDict d # rest)"
      by (cases imgs rule: py_first.cases) auto
    with Some d show ?thesis by auto
  qed
qed

lemma collect_urls_Inr:
  "collect_urls imgs = Inr us \<Longrightarrow>
   us = filter truthy (map (\<lambda>img. case img of PDict d \<Rightarrow> dict_get d ''url'' PNone | _ \<Rightarrow> PNone) imgs)
   \<and> list_all (\<lambda>img. case img of PDict d \<Rightarrow> True | _ \<Rightarrow> False) imgs"
proof (induction imgs arbitrary: us)
  case Nil
  then show ?case by simp
next
  case (Cons img imgs)
  from Cons.prems obtain c where c: "py_get img ''url'' PNone = Inr c"
    by (auto simp: bind_exn_eq_Inr)
  then obtain d where d: "img = PDict d" "c = dict_get d ''url'' PNone"
    by (cases img) auto
  show ?case
  proof (cases "truthy c")
    case True
    with Cons.prems c obtain us' where "collect_urls imgs = Inr us'" "us = c # us'"
      by (auto simp: bind_exn_eq_Inr)
    with Cons.IH [of us'] True d show ?thesis by simp
  next
    case False
    with Cons.prems c have "collect_urls imgs = Inr us" by simp
    with Cons.IH [of us] False d show ?thesis by simp
  qed
qed

lemma extract_all_images_Inr:
  assumes "extract_all_images ad = Inr v"
  shows "v = PList (filter truthy
           (map (\<lambda>img. case img of PDict d \<Rightarrow> dict_get d ''url'' PNone | _ \<Rightarrow> PNone)
              (case ad ''images'' of Some (PList imgs) \<Rightarrow> imgs | _ \<Rightarrow> [])))"
proof (cases "ad ''images''")
  case None
  with assms show ?thesis by (simp add: extract_all_images_def)
next
  case (Some imgs)
  show ?thesis
  proof (cases "truthy imgs")
    case False
    with Some assms show ?thesis
      by (cases imgs) (auto simp: extract_all_images_def)
  next
    case True
    with Some assms obtain xs us where
      it: "py_iter imgs = Inr xs" and cu: "collect_urls xs = Inr us" and v: "v = PList us"
      by (auto simp: extract_all_images_def bind_exn_eq_Inr)
    note cu' = collect_urls_Inr [OF cu]
    show ?thesis
    proof (cases imgs)
      case (PList ys)
      with it cu' v Some show ?thesis by simp
    next
      case (PStr s)
      with True it cu' show ?thesis by (cases s) auto
    next
      case (PDict kvs)
      with True it cu' show ?thesis by (cases kvs) auto
    qed (use it in auto)
  qed
qed

lemma parse_ad_image_url:
  assumes "parse_ad rp now ad = Some listing"
  shows "map_of listing ''image_url'' =
           Some (case ad ''images'' of
                   Some (PList (PDict d # rest)) \<Rightarrow> dict_get d ''url'' PNone
                 | _ \<Rightarrow> PNone)
    \<and> map_of listing ''images'' = None"
proof -
  from assms obtain id1 price loc id2 image where
    im: "extract_image ad = Inr image" and
    l: "listing = add_optional ad [''make'', ''model'', ''fuel_type'', ''transmission'']
         [(''listing_id'', PStr (py_str rp id1)),
          (''title'', getattr ad ''subject'' (PStr ''Unknown'')),
          (''price'', price),
          (''year'', getattr ad ''year'' PNone),
          (''mileage'', getattr ad ''mileage'' PNone),
          (''location'', loc),
          (''url'', PStr (''https://www.blocket.se/'' @ py_str rp id2)),
          (''image_url'', image),
          (''scraped_at'', PStr now),
          (''source'', PStr ''blocket''),
          (''category'', PStr ''car'')]"
    by (auto simp: parse_ad_def parse_ad_body_def bind_exn_eq_Inr
        simp del: add_optional.simps split: sum.splits)
  from l have a: "map_of listing ''image_url'' = Some image"
    by (simp add: map_of_add_optional del: add_optional.simps)
  from l have b: "map_of listing ''images'' = None"
    by (simp add: map_of_add_optional del: add_optional.simps)
  from a b extract_image_Inr [OF im] show ?thesis
    by simp
qed

lemma parse_ad_details_images:
  assumes "parse_ad_details rp now ad = Some details"
  shows "map_of details ''images'' =
           Some (PList (filter truthy
             (map (\<lambda>img. case img of PDict d \<Rightarrow> dict_get d ''url'' PNone | _ \<Rightarrow> PNone)
                (case ad ''images'' of Some (PList imgs) \<Rightarrow> imgs | _ \<Rightarrow> []))))"
proof -
  from assms obtain id1 price loc id2 images where
    ims: "extract_all_images ad = Inr images" and
    d: "details = add_optional ad
         [''make'', ''model'', ''fuel_type'', ''transmission'',
          ''body_type'', ''color'', ''engine_power'']
         [(''listing_id'', PStr (py_str rp id1)),
          (''title'', getattr ad ''subject'' (PStr ''Unknown'')),
          (''description'', getattr ad ''body'' (PStr [])),
          (''price'', price),
          (''year'', getattr ad ''year'' PNone),
          (''mileage'', getattr ad ''mileage'' PNone),
          (''location'', loc),
          (''url'', PStr (''https://www.blocket.se/'' @ py_str rp id2)),
          (''images'', images),
          (''posted_date'', getattr ad ''list_time'' PNone),
          (''scraped_at'', PStr now),
          (''source'', PStr ''blocket''),
          (''category'', PStr ''car'')]"
    by (auto simp: parse_ad_details_def parse_ad_details_body_def bind_exn_eq_Inr
        simp del: add_optional.simps split: sum.splits)
  from d have c: "map_of details ''images'' = Some images"
    by (simp add: map_of_add_optional del: add_optional.simps)
  from c extract_all_images_Inr [OF ims] show ?thesis
    by simp
qed

text \<open>
  C8. For every ad, each path on its own. Whenever \<^verbatim>\<open>_parse_ad\<close> gives a record, the
  record holds one image field, \<^verbatim>\<open>image_url\<close>: the \<^verbatim>\<open>url\<close> of the first image, or
  \<^verbatim>\<open>None\<close> when the ad has no image (or the first has no \<^verbatim>\<open>url\<close>). Whenever
  \<^verbatim>\<open>_parse_ad_details\<close> gives a record, the record holds under \<^verbatim>\<open>images\<close> the
  \<^verbatim>\<open>url\<close> of every image that has a non-empty one, in the order of the ad, repeated
  as often as it occurs there.
\<close>

theorem image_fields:
  "(parse_ad rp now ad = Some listing \<longrightarrow>
      map_of listing ''image_url'' =
        Some (case ad ''images'' of
                Some (PList (PDict d # rest)) \<Rightarrow> dict_get d ''url'' PNone
              | _ \<Rightarrow> PNone)
      \<and> map_of listing ''images'' = None)
   \<and> (parse_ad_details rp now' ad = Some details \<longrightarrow>
      map_of details ''images'' =
        Some (PList (filter truthy
          (map (\<lambda>img. case img of PDict d \<Rightarrow> dict_get d ''url'' PNone | _ \<Rightarrow> PNone)
             (case ad ''images'' of Some (PList imgs) \<Rightarrow> imgs | _ \<Rightarrow> [])))))"
proof (intro conjI impI)
  assume "parse_ad rp now ad = Some listing"
  from parse_ad_image_url [OF this]
  show "map_of listing ''image_url'' =
        Some (case ad ''images'' of
                Some (PList (PDict d # rest)) \<Rightarrow> dict_get d ''url'' PNone
              | _ \<Rightarrow> PNone)"
    and "map_of listing ''images'' = None"
    by simp_all
next
  assume "parse_ad_details rp now' ad = Some details"
  from parse_ad_details_images [OF this]
  show "map_of details ''images'' =
        Some (PList (filter truthy
          (map (\<lambda>img. case img of PDict d \<Rightarrow> dict_get d ''url'' PNone | _ \<Rightarrow> PNone)
             (case ad ''images'' of Some (PList imgs) \<Rightarrow> imgs | _ \<Rightarrow> []))))" .
qed

text \<open>
  An ad with five images: two with the same \<^verbatim>\<open>url\<close>, one with an empty \<^verbatim>\<open>url\<close> and
  one with none. And an ad whose second image is not a dict: \<^verbatim>\<open>_parse_ad\<close> gives its
  record, with the first image's \<^verbatim>\<open>url\<close>, and \<^verbatim>\<open>_parse_ad_details\<close> gives none.
\<close>

theorem image_fields_witness:
  "parse_ad (\<lambda>v. []) ''t'' pictured_ad \<noteq> None
   \<and> parse_ad_details (\<lambda>v. []) ''t'' pictured_ad \<noteq> None
   \<and> map_of (the (parse_ad (\<lambda>v. []) ''t'' pictured_ad)) ''image_url'' = Some (PStr ''a.jpg'')
   \<and> map_of (the (parse_ad_details (\<lambda>v. []) ''t'' pictured_ad)) ''images'' =
       Some (PList [PStr ''a.jpg'', PStr ''a.jpg'', PStr ''b.jpg''])
   \<and> parse_ad (\<lambda>v. []) ''t'' half_pictured_ad \<noteq> None
   \<and> parse_ad_details (\<lambda>v. []) ''t'' half_pictured_ad = None
   \<and> map_of (the (parse_ad (\<lambda>v. []) ''t'' half_pictured_ad)) ''image_url'' =
       Some (PStr ''a.jpg'')"
proof -
  have h1: "parse_ad (\<lambda>v. []) ''t'' pictured_ad \<noteq> None"
    by code_simp
  have h2: "parse_ad_details (\<lambda>v. []) ''t'' pictured_ad \<noteq> None"
    by code_simp
  have h3: "parse_ad (\<lambda>v. []) ''t'' half_pictured_ad \<noteq> None"
    by code_simp
  have h4: "parse_ad_details (\<lambda>v. []) ''t'' half_pictured_ad = None"
    by code_simp
  from h1 have s1: "parse_ad (\<lambda>v. []) ''t'' pictured_ad =
      Some (the (parse_ad (\<lambda>v. []) ''t'' pictured_ad))"
    by simp
  from h2 have s2: "parse_ad_details (\<lambda>v. []) ''t'' pictured_ad =
      Some (the (parse_ad_details (\<lambda>v. []) ''t'' pictured_ad))"
    by simp
  from h3 have s3: "parse_ad (\<lambda>v. []) ''t'' half_pictured_ad =
      Some (the (parse_ad (\<lambda>v. []) ''t'' half_pictured_ad))"
    by simp
  from image_fields [THEN conjunct1, rule_format, OF s1]
  have a: "map_of (the (parse_ad (\<lambda>v. []) ''t'' pictured_ad)) ''image_url'' = Some (PStr ''a.jpg'')"
    by (simp add: dict_get_def)
  from image_fields [THEN conjunct2, rule_format, OF s2]
  have b: "map_of (the (parse_ad_details (\<lambda>v. []) ''t'' pictured_ad)) ''images'' =
       Some (PList [PStr ''a.jpg'', PStr ''a.jpg'', PStr ''b.jpg''])"
    by (simp add: dict_get_def)
  from image_fields [THEN conjunct1, rule_format, OF s3]
  have c: "map_of (the (parse_ad (\<lambda>v. []) ''t'' half_pictured_ad)) ''image_url'' =
       Some (PStr ''a.jpg'')"
    by (simp add: dict_get_def)
  from h1 h2 a b h3 h4 c show ?thesis
    by blast
qed

subsection \<open>The cap on the results of a search\<close>

lemma parse_ad_not_Nil: "parse_ad rp now ad = Some listing \<Longrightarrow> listing \<noteq> []"
  by (auto simp: parse_ad_def parse_ad_body_def bind_exn_eq_Inr
      simp del: add_optional.simps split: sum.splits intro!: add_optional_not_Nil)

lemma search_loop_eq:
  "search_loop rp clock mx idx ads acc =
     acc @ List.map_filter (\<lambda>(i, ad). parse_ad rp (clock i) ad)
             (enumerate idx (take (nat (mx - int idx)) ads))"
proof (induction ads arbitrary: idx acc)
  case Nil
  then show ?case by (simp add: List.map_filter_simps)
next
  case (Cons ad ads)
  show ?case
  proof (cases "int idx \<ge> mx")
    case True
    then show ?thesis by (simp add: List.map_filter_simps)
  next
    case False
    then obtain k where k: "nat (mx - int idx) = Suc k" "nat (mx - int (Suc idx)) = k"
      by (cases "nat (mx - int idx)") auto
    show ?thesis
    proof (cases "parse_ad rp (clock idx) ad")
      case None
      with False k Cons.IH [of "Suc idx" acc] show ?thesis
        by (simp add: List.map_filter_simps)
    next
      case (Some listing)
      with parse_ad_not_Nil have "listing \<noteq> []" by blast
      with Some False k Cons.IH [of "Suc idx" "acc @ [listing]"] show ?thesis
        by (simp add: List.map_filter_simps)
    qed
  qed
qed

lemma length_map_filter_le: "length (List.map_filter f xs) \<le> length xs"
  by (simp add: List.map_filter_def)

lemma map_filter_all_Some:
  "list_all (\<lambda>x. f x \<noteq> None) xs \<Longrightarrow> List.map_filter f xs = map (\<lambda>x. the (f x)) xs"
  by (induction xs) (auto simp: List.map_filter_simps)

text \<open>
  C4. A search with \<^verbatim>\<open>max_results = 50\<close> against an API that returns 70 ads looks at
  the first 50 ads only and returns, in the API's order, the records of those among them
  that \<^verbatim>\<open>_parse_ad\<close> normalizes: exactly 50 records when each of the 50 normalizes,
  fewer otherwise. \<open>clock i\<close> is the time at which ad number \<open>i\<close> is parsed.
\<close>

theorem search_cars_first_fifty:
  assumes "api_search_car (make_request a) = Inr results"
    and "max_results a = 50"
    and "length results = 70"
  shows "search_cars rp clock api_search_car a =
           List.map_filter (\<lambda>(i, ad). parse_ad rp (clock i) ad) (enumerate 0 (take 50 results))
    \<and> length (search_cars rp clock api_search_car a) \<le> 50
    \<and> (if list_all (\<lambda>(i, ad). parse_ad rp (clock i) ad \<noteq> None) (enumerate 0 (take 50 results))
       then search_cars rp clock api_search_car a =
              map (\<lambda>(i, ad). the (parse_ad rp (clock i) ad)) (enumerate 0 (take 50 results))
            \<and> length (search_cars rp clock api_search_car a) = 50
       else length (search_cars rp clock api_search_car a) < 50)"
proof -
  let ?f = "\<lambda>(i, ad). parse_ad rp (clock i) ad"
  let ?xs = "enumerate 0 (take 50 results)"
  have eq: "search_cars rp clock api_search_car a = List.map_filter ?f ?xs"
    using assms(1,2) by (simp add: search_cars_def search_loop_eq)
  have len: "length ?xs = 50"
    using assms(3) by simp
  have le: "length (List.map_filter ?f ?xs) \<le> 50"
    using length_map_filter_le [of ?f ?xs] len by simp
  show ?thesis
  proof (cases "list_all (\<lambda>x. ?f x \<noteq> None) ?xs")
    case True
    from map_filter_all_Some [OF True] have "List.map_filter ?f ?xs = map (\<lambda>x. the (?f x)) ?xs" .
    moreover have "(\<lambda>x. the (?f x)) = (\<lambda>(i, ad). the (parse_ad rp (clock i) ad))"
      by auto
    moreover have "(\<lambda>x. ?f x \<noteq> None) = (\<lambda>(i, ad). parse_ad rp (clock i) ad \<noteq> None)"
      by auto
    ultimately show ?thesis
      using eq le len True by simp
  next
    case False
    then have "length (filter (\<lambda>x. ?f x \<noteq> None) ?xs) < length ?xs"
      by (metis (no_types, lifting) length_filter_less list_all_iff)
    then have "length (List.map_filter ?f ?xs) < 50"
      using len by (simp add: List.map_filter_def)
    moreover have "(\<lambda>x. ?f x \<noteq> None) = (\<lambda>(i, ad). parse_ad rp (clock i) ad \<noteq> None)"
      by auto
    ultimately show ?thesis
      using eq le False by simp
  qed
qed

text \<open>
  Seventy ads of which the first has no \<^verbatim>\<open>ad_id\<close>: the search returns 49 records, not
  50.
\<close>

theorem search_cars_fifty_counterexample:
  "length (nameless_ad # replicate 69 zero_price_ad) = 70
   \<and> max_results budget_profile = 50
   \<and> length (search_cars (\<lambda>v. []) (\<lambda>i. ''t'')
        (\<lambda>r. Inr (nameless_ad # replicate 69 zero_price_ad)) budget_profile) = 49"
  by code_simp

text \<open>Seventy ads that all normalize.\<close>

theorem search_cars_first_fifty_witness:
  "max_results budget_profile = 50
   \<and> length (replicate 70 zero_price_ad) = 70
   \<and> list_all (\<lambda>(i, ad). parse_ad (\<lambda>v. []) ''t'' ad \<noteq> None)
        (enumerate 0 (take 50 (replicate 70 zero_price_ad)))
   \<and> length (search_cars (\<lambda>v. []) (\<lambda>i. ''t'') (\<lambda>r. Inr (replicate 70 zero_price_ad))
        budget_profile) = 50"
proof -
  have h1: "(\<lambda>r. Inr (replicate 70 zero_price_ad) :: exn + raw_ad list)
      (make_request budget_profile) = Inr (replicate 70 zero_price_ad)"
    by simp
  have h2: "max_results budget_profile = 50"
    by (simp add: default_args_def)
  have h3: "length (replicate 70 zero_price_ad) = 70"
    by simp
  have h4: "list_all (\<lambda>(i, ad). parse_ad (\<lambda>v. []) ''t'' ad \<noteq> None)
        (enumerate 0 (take 50 (replicate 70 zero_price_ad)))"
    by code_simp
  note t = search_cars_first_fifty
    [of "\<lambda>r. Inr (replicate 70 zero_price_ad)" budget_profile "replicate 70 zero_price_ad"
      "\<lambda>v. []" "\<lambda>i. ''t''", OF h1 h2 h3]
  note c = t [THEN conjunct2, THEN conjunct2, unfolded if_P [OF h4], THEN conjunct2]
  from c h2 h3 h4 show ?thesis
    by blast
qed

section \<open>The publisher\<close>

subsection \<open>The tally of a batch\<close>

lemma send_batch_loop_tally:
  "list_all (\<lambda>r. \<not> isl r) (send_results cl topic st ls) \<Longrightarrow>
   fst (send_batch_loop cl topic st ls acc) =
     Inr (acc + length (filter (\<lambda>r. r = Inr True) (send_results cl topic st ls)))
   \<and> length (send_results cl topic st ls) = length ls"
proof (induction ls arbitrary: st acc)
  case Nil
  then show ?case by simp
next
  case (Cons l ls)
  obtain r st' where r: "send_listing cl topic st l = (r, st')"
    by (cases "send_listing cl topic st l")
  with Cons.prems obtain ok where ok: "r = Inr ok" and
    rest: "list_all (\<lambda>r. \<not> isl r) (send_results cl topic st' ls)"
    by (cases r) auto
  from Cons.IH [OF rest, of "if ok then acc + 1 else acc"] r ok show ?case
    by auto
qed

lemma count_true_false:
  "list_all (\<lambda>r. \<not> isl r) (rs :: (exn + bool) list) \<Longrightarrow>
   length (filter (\<lambda>r. r = Inr True) rs) + length (filter (\<lambda>r. r = Inr False) rs) = length rs"
proof (induction rs)
  case Nil
  then show ?case by simp
next
  case (Cons r rs)
  then obtain b where "r = Inr b" by (cases r) auto
  with Cons show ?case by (cases b) auto
qed

text \<open>
  C1. When no \<^verbatim>\<open>send_listing\<close> call of a batch lets an exception through and the flush
  raises nothing, \<^verbatim>\<open>send_batch\<close> returns the number of calls that returned \<^verbatim>\<open>True\<close>:
  for N records of which K fail, that is N - K.
\<close>

theorem send_batch_counts_successes:
  assumes "list_all (\<lambda>r. \<not> isl r) (send_results cl topic st listings)"
    and "fst (flush cl (snd (send_batch_loop cl topic st listings 0))) = None"
  shows "fst (send_batch cl topic st listings) =
           Inr (length listings
                - length (filter (\<lambda>r. r = Inr False) (send_results cl topic st listings)))
    \<and> fst (send_batch cl topic st listings) =
           Inr (length (filter (\<lambda>r. r = Inr True) (send_results cl topic st listings)))"
proof -
  let ?rs = "send_results cl topic st listings"
  from send_batch_loop_tally [OF assms(1), of 0] have
    loop: "fst (send_batch_loop cl topic st listings 0) = Inr (length (filter (\<lambda>r. r = Inr True) ?rs))"
    and len: "length ?rs = length listings"
    by simp_all
  from count_true_false [OF assms(1)] len have
    n: "length (filter (\<lambda>r. r = Inr True) ?rs) = length listings - length (filter (\<lambda>r. r = Inr False) ?rs)"
    by simp
  have "fst (send_batch cl topic st listings) = Inr (length (filter (\<lambda>r. r = Inr True) ?rs))"
    using loop assms(2)
    by (cases "send_batch_loop cl topic st listings 0"; cases "flush cl (snd (send_batch_loop cl topic st listings 0))")
       (auto simp: send_batch_def)
  with n show ?thesis by simp
qed

text \<open>
  One record and a broker that is down: the one send fails (K = 1, and N - K = 0 succeed)
  and \<^verbatim>\<open>send_batch\<close> returns 0, not K.
\<close>

theorem send_batch_counts_counterexample:
  "send_results broker_down ''raw-car-listings'' () [[(''listing_id'', PStr ''1'')]] = [Inr False]
   \<and> fst (send_batch broker_down ''raw-car-listings'' () [[(''listing_id'', PStr ''1'')]]) = Inr 0"
  by code_simp

text \<open>Three records of which the second fails: the tally is 2.\<close>

theorem send_batch_counts_successes_witness:
  "send_results picky_client ''raw-car-listings'' ()
     [[(''listing_id'', PStr ''1'')], [(''listing_id'', PStr ''2'')], [(''listing_id'', PStr ''3'')]]
     = [Inr True, Inr False, Inr True]
   \<and> fst (send_batch picky_client ''raw-car-listings'' ()
     [[(''listing_id'', PStr ''1'')], [(''listing_id'', PStr ''2'')], [(''listing_id'', PStr ''3'')]])
     = Inr 2"
proof -
  let ?ls = "[[(''listing_id'', PStr ''1'')], [(''listing_id'', PStr ''2'')], [(''listing_id'', PStr ''3'')]]"
  have r: "send_results picky_client ''raw-car-listings'' () ?ls = [Inr True, Inr False, Inr True]"
    by code_simp
  then have h1: "list_all (\<lambda>r. \<not> isl r) (send_results picky_client ''raw-car-listings'' () ?ls)"
    by simp
  have h2: "fst (flush picky_client (snd (send_batch_loop picky_client ''raw-car-listings'' () ?ls 0))) = None"
    by simp
  from send_batch_counts_successes [OF h1 h2] r show ?thesis
    by simp
qed

subsection \<open>One send\<close>

lemma key_serializer_Inr:
  "key_serializer k = Inr kb \<Longrightarrow>
   kb = (case k of PStr s \<Rightarrow> (if s = [] then None else Some s) | _ \<Rightarrow> None)"
  by (cases k) (auto simp: key_serializer_def split: if_splits)

lemma make_message_Inr:
  "make_message topic k v = Inr m \<Longrightarrow>
   key_serializer k = Inr (msg_key m) \<and> msg_topic m = topic \<and> msg_value m = v"
  by (auto simp: make_message_def value_serializer_def bind_exn_eq_Inr split: if_splits)

lemma make_message_not_kafka: "make_message topic k v = Inl e \<Longrightarrow> \<not> is_kafka_error e"
  by (cases k) (auto simp: make_message_def key_serializer_def value_serializer_def bind_exn_def
      split: if_splits sum.splits)

lemma send_attempt_not_ready:
  "await_metadata cl st topic = (Some e, st1) \<Longrightarrow>
   send_attempt cl topic st listing = (Some e, st1)"
  by (simp add: send_attempt_def)

lemma send_attempt_unserializable:
  "await_metadata cl st topic = (None, st1) \<Longrightarrow>
   make_message topic (listing_key listing) listing = Inl e \<Longrightarrow>
   send_attempt cl topic st listing = (Some e, st1)"
  by (simp add: send_attempt_def)

lemma send_attempt_delivers:
  "await_metadata cl st topic = (None, st1) \<Longrightarrow>
   make_message topic (listing_key listing) listing = Inr m \<Longrightarrow>
   send_attempt cl topic st listing = deliver cl st1 m 10"
  by (simp add: send_attempt_def)

lemma send_listing_delivers:
  "make_message topic (listing_key listing) listing = Inr m \<Longrightarrow>
   send_listing cl topic st listing =
     (case await_metadata cl st topic of
        (Some e, st1) \<Rightarrow> (if is_kafka_error e then (Inr False, st1) else (Inl e, st1))
      | (None, st1) \<Rightarrow>
          (case deliver cl st1 m 10 of
             (None, st') \<Rightarrow> (Inr True, st')
           | (Some e, st') \<Rightarrow> (if is_kafka_error e then (Inr False, st') else (Inl e, st'))))"
  by (simp add: send_listing_def send_attempt_def split: prod.splits option.splits)

text \<open>
  C2. For every record whose message is handed to the client, the key of the message is
  the record's \<^verbatim>\<open>listing_id\<close> when that is a non-empty string, the string
  \<^verbatim>\<open>unknown\<close> when the record has no \<^verbatim>\<open>listing_id\<close> field, and absent only when the
  field is there and falsy (\<^verbatim>\<open>None\<close> or empty). The message carries the topic and the
  record, and it is what \<^verbatim>\<open>send_listing\<close> has the client deliver, waiting up to 10,
  once the client has the metadata of the topic.
\<close>

theorem message_key:
  assumes "make_message topic (listing_key listing) listing = Inr m"
  shows "msg_key m =
           (case map_of listing ''listing_id'' of
              None \<Rightarrow> Some ''unknown''
            | Some (PStr s) \<Rightarrow> (if s = [] then None else Some s)
            | Some _ \<Rightarrow> None)
    \<and> msg_topic m = topic
    \<and> msg_value m = listing
    \<and> send_listing cl topic st listing =
         (case await_metadata cl st topic of
            (Some e, st1) \<Rightarrow> (if is_kafka_error e then (Inr False, st1) else (Inl e, st1))
          | (None, st1) \<Rightarrow>
              (case deliver cl st1 m 10 of
                 (None, st') \<Rightarrow> (Inr True, st')
               | (Some e, st') \<Rightarrow>
                   (if is_kafka_error e then (Inr False, st') else (Inl e, st'))))"
proof -
  note mm = make_message_Inr [OF assms]
  from mm have "key_serializer (listing_key listing) = Inr (msg_key m)" by simp
  from key_serializer_Inr [OF this] have
    "msg_key m = (case listing_key listing of PStr s \<Rightarrow> (if s = [] then None else Some s) | _ \<Rightarrow> None)" .
  then have "msg_key m =
           (case map_of listing ''listing_id'' of
              None \<Rightarrow> Some ''unknown''
            | Some (PStr s) \<Rightarrow> (if s = [] then None else Some s)
            | Some _ \<Rightarrow> None)"
    by (auto simp: listing_key_def dict_get_def split: option.splits pyval.splits)
  with mm send_listing_delivers [OF assms] show ?thesis
    by simp
qed

text \<open>
  A record without \<^verbatim>\<open>listing_id\<close>, sent through a client that keeps what it is
  given: the message has the key \<^verbatim>\<open>unknown\<close>, not no key.
\<close>

theorem message_key_counterexample:
  "send_listing recording_client ''raw-car-listings'' [] [(''title'', PStr ''Volvo V70'')] =
     (Inr True,
      [\<lparr>msg_topic = ''raw-car-listings'', msg_key = Some ''unknown'',
        msg_value = [(''title'', PStr ''Volvo V70'')]\<rparr>])"
  by (simp add: send_listing_def send_attempt_def make_message_def listing_key_def dict_get_def
      key_serializer_def value_serializer_def)

text \<open>A record with the \<^verbatim>\<open>listing_id\<close> 12345.\<close>

theorem message_key_witness:
  "make_message ''raw-car-listings'' (listing_key [(''listing_id'', PStr ''12345'')])
       [(''listing_id'', PStr ''12345'')] =
     Inr \<lparr>msg_topic = ''raw-car-listings'', msg_key = Some ''12345'',
          msg_value = [(''listing_id'', PStr ''12345'')]\<rparr>
   \<and> send_listing recording_client ''raw-car-listings'' [] [(''listing_id'', PStr ''12345'')] =
     (Inr True,
      [\<lparr>msg_topic = ''raw-car-listings'', msg_key = Some ''12345'',
        msg_value = [(''listing_id'', PStr ''12345'')]\<rparr>])"
proof -
  have h: "make_message ''raw-car-listings'' (listing_key [(''listing_id'', PStr ''12345'')])
       [(''listing_id'', PStr ''12345'')] =
     Inr \<lparr>msg_topic = ''raw-car-listings'', msg_key = Some ''12345'',
          msg_value = [(''listing_id'', PStr ''12345'')]\<rparr>"
    by (simp add: make_message_def listing_key_def dict_get_def key_serializer_def
        value_serializer_def)
  from message_key [OF h, of recording_client "[]"] h show ?thesis
    by simp
qed

text \<open>
  C3. No \<^verbatim>\<open>KafkaError\<close> ever leaves \<^verbatim>\<open>send_listing\<close>: wherever one is raised in the
  send, \<^verbatim>\<open>send_listing\<close> returns \<^verbatim>\<open>False\<close>. That is so for the wait for the metadata,
  which comes before the serializers and so whatever the record is, and for the
  submission and the wait for the acknowledgement. An exception that is not a
  \<^verbatim>\<open>KafkaError\<close> is raised out of \<^verbatim>\<open>send_listing\<close>: one of the client, at either
  point, and one of a serializer, which is never a \<^verbatim>\<open>KafkaError\<close>, once the client
  has the metadata. Without any exception \<^verbatim>\<open>send_listing\<close> returns \<^verbatim>\<open>True\<close>.
\<close>

theorem send_listing_catches_kafka_errors:
  "fst (send_listing cl topic st listing) \<noteq> Inl (KafkaError s)
   \<and> (\<forall>e st1. await_metadata cl st topic = (Some e, st1) \<longrightarrow>
         send_listing cl topic st listing =
           (if is_kafka_error e then (Inr False, st1) else (Inl e, st1)))
   \<and> (\<forall>e st1. await_metadata cl st topic = (None, st1) \<longrightarrow>
         make_message topic (listing_key listing) listing = Inl e \<longrightarrow>
         \<not> is_kafka_error e \<and> send_listing cl topic st listing = (Inl e, st1))
   \<and> (\<forall>m e st1 st2. await_metadata cl st topic = (None, st1) \<longrightarrow>
         make_message topic (listing_key listing) listing = Inr m \<longrightarrow>
         deliver cl st1 m 10 = (Some e, st2) \<longrightarrow>
         send_listing cl topic st listing =
           (if is_kafka_error e then (Inr False, st2) else (Inl e, st2)))
   \<and> (\<forall>m st1 st2. await_metadata cl st topic = (None, st1) \<longrightarrow>
         make_message topic (listing_key listing) listing = Inr m \<longrightarrow>
         deliver cl st1 m 10 = (None, st2) \<longrightarrow>
         send_listing cl topic st listing = (Inr True, st2))"
proof -
  have a: "fst (send_listing cl topic st listing) \<noteq> Inl (KafkaError s)"
    by (auto simp: send_listing_def split: prod.splits option.splits if_splits)
  have b: "send_listing cl topic st listing =
      (if is_kafka_error e then (Inr False, st1) else (Inl e, st1))"
    if "await_metadata cl st topic = (Some e, st1)" for e st1
    using send_attempt_not_ready [OF that, of listing] by (simp add: send_listing_def)
  have c: "\<not> is_kafka_error e \<and> send_listing cl topic st listing = (Inl e, st1)"
    if "await_metadata cl st topic = (None, st1)"
      and "make_message topic (listing_key listing) listing = Inl e" for e st1
    using send_attempt_unserializable [OF that] make_message_not_kafka [OF that(2)]
    by (simp add: send_listing_def)
  have d: "send_listing cl topic st listing =
      (if is_kafka_error e then (Inr False, st2) else (Inl e, st2))"
    if "await_metadata cl st topic = (None, st1)"
      and "make_message topic (listing_key listing) listing = Inr m"
      and "deliver cl st1 m 10 = (Some e, st2)" for m e st1 st2
    using send_attempt_delivers [OF that(1,2)] that(3) by (simp add: send_listing_def)
  have e: "send_listing cl topic st listing = (Inr True, st2)"
    if "await_metadata cl st topic = (None, st1)"
      and "make_message topic (listing_key listing) listing = Inr m"
      and "deliver cl st1 m 10 = (None, st2)" for m st1 st2
    using send_attempt_delivers [OF that(1,2)] that(3) by (simp add: send_listing_def)
  from a b c d e show ?thesis
    by blast
qed

text \<open>
  Two records sent through a client that acknowledges everything: one whose
  \<^verbatim>\<open>listing_id\<close> is an int, which has no \<^verbatim>\<open>encode\<close>, and one that holds an object
  \<^verbatim>\<open>json.dumps\<close> cannot encode. Both sends raise.
\<close>

theorem send_listing_raises_counterexample:
  "send_listing idle_client ''raw-car-listings'' () [(''listing_id'', PInt 5)]
     = (Inl AttributeError, ())
   \<and> send_listing idle_client ''raw-car-listings'' ()
       [(''listing_id'', PStr ''5''), (''make'', PObj ''CarModel'')]
     = (Inl TypeError, ())"
  by (simp add: send_listing_def send_attempt_def make_message_def listing_key_def dict_get_def
      key_serializer_def value_serializer_def)

text \<open>
  Five sends. A record whose \<^verbatim>\<open>listing_id\<close> is an int while no broker answers the
  request for metadata: \<^verbatim>\<open>False\<close>, the serializer is never reached. The same record
  through a client that acknowledges everything: the serializer's \<^verbatim>\<open>AttributeError\<close>
  is raised. A well-formed record while the broker fails the delivery: \<^verbatim>\<open>False\<close>. The
  same record through a client whose delivery raises another exception: it is raised.
  And through the client that acknowledges everything: \<^verbatim>\<open>True\<close>.
\<close>

theorem send_listing_catches_kafka_errors_witness:
  "send_listing unreachable_client ''raw-car-listings'' () [(''listing_id'', PInt 5)] =
     (Inr False, ())
   \<and> send_listing idle_client ''raw-car-listings'' () [(''listing_id'', PInt 5)] =
     (Inl AttributeError, ())
   \<and> send_listing broker_down ''raw-car-listings'' () [(''listing_id'', PStr ''12345'')] =
     (Inr False, ())
   \<and> send_listing faulty_client ''raw-car-listings'' () [(''listing_id'', PStr ''12345'')] =
     (Inl (OtherError ''AssertionError''), ())
   \<and> send_listing idle_client ''raw-car-listings'' () [(''listing_id'', PStr ''12345'')] =
     (Inr True, ())"
proof -
  let ?m = "\<lparr>msg_topic = ''raw-car-listings'', msg_key = Some ''12345'',
      msg_value = [(''listing_id'', PStr ''12345'')]\<rparr>"
  have good: "make_message ''raw-car-listings'' (listing_key [(''listing_id'', PStr ''12345'')])
      [(''listing_id'', PStr ''12345'')] = Inr ?m"
    by (simp add: make_message_def listing_key_def dict_get_def key_serializer_def
        value_serializer_def)
  have bad: "make_message ''raw-car-listings'' (listing_key [(''listing_id'', PInt 5)])
      [(''listing_id'', PInt 5)] = Inl AttributeError"
    by (simp add: make_message_def listing_key_def dict_get_def key_serializer_def)
  have u: "await_metadata unreachable_client () ''raw-car-listings'' =
      (Some (KafkaError ''KafkaTimeoutError''), ())"
    by simp
  have i: "await_metadata idle_client () ''raw-car-listings'' = (None, ())"
    by simp
  have bm: "await_metadata broker_down () ''raw-car-listings'' = (None, ())"
    by simp
  have fm: "await_metadata faulty_client () ''raw-car-listings'' = (None, ())"
    by simp
  have bd: "deliver broker_down () ?m 10 = (Some (KafkaError ''KafkaTimeoutError''), ())"
    by simp
  have fd: "deliver faulty_client () ?m 10 = (Some (OtherError ''AssertionError''), ())"
    by simp
  have idl: "deliver idle_client () ?m 10 = (None, ())"
    by simp
  from send_listing_catches_kafka_errors
    [of unreachable_client "''raw-car-listings''" "()" "[(''listing_id'', PInt 5)]",
      THEN conjunct2, THEN conjunct1, rule_format, OF u]
  have w1: "send_listing unreachable_client ''raw-car-listings'' () [(''listing_id'', PInt 5)] =
     (Inr False, ())"
    by simp
  from send_listing_catches_kafka_errors
    [of idle_client "''raw-car-listings''" "()" "[(''listing_id'', PInt 5)]",
      THEN conjunct2, THEN conjunct2, THEN conjunct1, rule_format, OF i bad]
  have w2: "send_listing idle_client ''raw-car-listings'' () [(''listing_id'', PInt 5)] =
     (Inl AttributeError, ())"
    by simp
  from send_listing_catches_kafka_errors
    [of broker_down "''raw-car-listings''" "()" "[(''listing_id'', PStr ''12345'')]",
      THEN conjunct2, THEN conjunct2, THEN conjunct2, THEN conjunct1, rule_format, OF bm good bd]
  have w3: "send_listing broker_down ''raw-car-listings'' () [(''listing_id'', PStr ''12345'')] =
     (Inr False, ())"
    by simp
  from send_listing_catches_kafka_errors
    [of faulty_client "''raw-car-listings''" "()" "[(''listing_id'', PStr ''12345'')]",
      THEN conjunct2, THEN conjunct2, THEN conjunct2, THEN conjunct1, rule_format, OF fm good fd]
  have w4: "send_listing faulty_client ''raw-car-listings'' () [(''listing_id'', PStr ''12345'')] =
     (Inl (OtherError ''AssertionError''), ())"
    by simp
  from send_listing_catches_kafka_errors
    [of idle_client "''raw-car-listings''" "()" "[(''listing_id'', PStr ''12345'')]",
      THEN conjunct2, THEN conjunct2, THEN conjunct2, THEN conjunct2, rule_format, OF i good idl]
  have w5: "send_listing idle_client ''raw-car-listings'' () [(''listing_id'', PStr ''12345'')] =
     (Inr True, ())"
    by simp
  from w1 w2 w3 w4 w5 show ?thesis
    by blast
qed

section \<open>Connecting, and the dry run\<close>

lemma connect_all_fail:
  assumes "connector 0 = Inl (KafkaError s0)"
    and "connector 1 = Inl (KafkaError s1)"
    and "connector 2 = Inl (KafkaError s2)"
  shows "connect connector =
           (Inl (KafkaError s2), [EvConnect 0, EvSleep 5, EvConnect 1, EvSleep 5, EvConnect 2])"
proof -
  have u: "[0 ..< 3] = [0, 1, Suc 1]"
    by (simp add: upt_rec)
  have c2: "connector (Suc 1) = Inl (KafkaError s2)"
    using assms(3) by (simp add: numeral_2_eq_2)
  show ?thesis
    unfolding connect_def u using assms(1,2) c2 by simp
qed

text \<open>
  \<^verbatim>\<open>_connect\<close> never ends with neither a producer nor an exception: the last
  attempt returns or raises.
\<close>

lemma connect_never_empty: "fst (connect connector) \<noteq> Inr None"
proof -
  have u: "[0 ..< 3] = [0, 1, Suc 1]"
    by (simp add: upt_rec)
  show ?thesis
    unfolding connect_def u
    by (cases "connector 0"; cases "connector 1"; cases "connector (Suc 1)") auto
qed

lemma parse_ad_keys:
  assumes "parse_ad rp now ad = Some listing"
  shows "map_of listing ''title'' \<noteq> None \<and> map_of listing ''price'' \<noteq> None
    \<and> map_of listing ''year'' \<noteq> None"
proof -
  from assms obtain id1 price loc id2 image where
    l: "listing = add_optional ad [''make'', ''model'', ''fuel_type'', ''transmission'']
         [(''listing_id'', PStr (py_str rp id1)),
          (''title'', getattr ad ''subject'' (PStr ''Unknown'')),
          (''price'', price),
          (''year'', getattr ad ''year'' PNone),
          (''mileage'', getattr ad ''mileage'' PNone),
          (''location'', loc),
          (''url'', PStr (''https://www.blocket.se/'' @ py_str rp id2)),
          (''image_url'', image),
          (''scraped_at'', PStr now),
          (''source'', PStr ''blocket''),
          (''category'', PStr ''car'')]"
    by (auto simp: parse_ad_def parse_ad_body_def bind_exn_eq_Inr
        simp del: add_optional.simps split: sum.splits)
  show ?thesis
    unfolding l by (simp add: map_of_add_optional del: add_optional.simps)
qed

lemma map_filter_all:
  "(\<And>x y. f x = Some y \<Longrightarrow> P y) \<Longrightarrow> list_all P (List.map_filter f xs)"
  by (induction xs) (auto simp: List.map_filter_simps split: option.splits)

lemma search_cars_previewable: "list_all previewable (search_cars rp clock api_search_car a)"
proof (cases "api_search_car (make_request a)")
  case (Inl e)
  then show ?thesis by (simp add: search_cars_def)
next
  case (Inr results)
  have "list_all previewable (List.map_filter (\<lambda>(i, ad). parse_ad rp (clock i) ad)
      (enumerate 0 (take (nat (max_results a - int 0)) results)))"
    by (rule map_filter_all) (auto dest: parse_ad_keys)
  with Inr show ?thesis
    by (simp add: search_cars_def search_loop_eq)
qed

lemma preview_total: "list_all previewable ls \<Longrightarrow> \<exists>evs. preview ls = Inr evs"
  by (induction ls) (auto simp: dict_item_def)

lemma list_all_take: "list_all P xs \<Longrightarrow> list_all P (take n xs)"
  by (auto simp: list_all_iff dest: in_set_takeD)

lemma run_profile_dry:
  assumes "ds_producer ds = None"
  shows "fst (run_profile rp clock api_search_car cl topic config ds) = None
    \<and> ds_producer (snd (run_profile rp clock api_search_car cl topic config ds)) = None
    \<and> ds_all (snd (run_profile rp clock api_search_car cl topic config ds)) =
        ds_all ds @ search_cars rp clock api_search_car (snd config)"
proof -
  let ?ls = "search_cars rp clock api_search_car (snd config)"
  from search_cars_previewable have "list_all previewable (take 3 ?ls)"
    by (rule list_all_take)
  from preview_total [OF this] obtain evs where "preview (take 3 ?ls) = Inr evs" ..
  with assms show ?thesis
    by (simp add: run_profile_def Let_def)
qed

lemma run_profiles_dry:
  "ds_producer ds = None \<Longrightarrow>
   fst (run_profiles rp clock api_search_car cl topic n configs ds) = None
   \<and> ds_producer (snd (run_profiles rp clock api_search_car cl topic n configs ds)) = None
   \<and> ds_all (snd (run_profiles rp clock api_search_car cl topic n configs ds)) =
       ds_all ds @ concat (map (\<lambda>(i, config). search_cars rp (clock i) api_search_car (snd config))
                            (enumerate n configs))"
proof (induction configs arbitrary: n ds)
  case Nil
  then show ?case by simp
next
  case (Cons config rest)
  obtain err ds' where s: "run_profile rp (clock n) api_search_car cl topic config ds = (err, ds')"
    by (cases "run_profile rp (clock n) api_search_car cl topic config ds")
  with run_profile_dry [OF Cons.prems, of rp "clock n" api_search_car cl topic config]
  have e: "err = None" and p: "ds_producer ds' = None"
    and a: "ds_all ds' = ds_all ds @ search_cars rp (clock n) api_search_car (snd config)"
    by simp_all
  from Cons.IH [OF p, of "Suc n"] s e a show ?case
    by simp
qed

text \<open>
  C5. When each of the three attempts to construct the client fails with a
  \<^verbatim>\<open>KafkaError\<close>, \<^verbatim>\<open>_connect\<close> makes exactly these three attempts, sleeps 5 after the
  first and after the second, and raises the error of the third. \<^verbatim>\<open>main\<close> catches it
  and goes on without a producer: the loop over the profiles ends normally, still without
  a producer, having collected the results of the three searches in order.
\<close>

theorem connect_retries_then_dry_run:
  assumes "connector 0 = Inl (KafkaError s0)"
    and "connector 1 = Inl (KafkaError s1)"
    and "connector 2 = Inl (KafkaError s2)"
  shows "connect connector =
           (Inl (KafkaError s2), [EvConnect 0, EvSleep 5, EvConnect 1, EvSleep 5, EvConnect 2])
    \<and> init_producer connector =
           (None, [EvConnect 0, EvSleep 5, EvConnect 1, EvSleep 5, EvConnect 2])
    \<and> fst (run_all rp clock api_search_car connector cl) = None
    \<and> ds_producer (snd (run_all rp clock api_search_car connector cl)) = None
    \<and> ds_all (snd (run_all rp clock api_search_car connector cl)) =
         concat (map (\<lambda>(i, config). search_cars rp (clock i) api_search_car (snd config))
                   (enumerate 0 search_configs))"
proof -
  note c = connect_all_fail [OF assms]
  then have i: "init_producer connector =
      (None, [EvConnect 0, EvSleep 5, EvConnect 1, EvSleep 5, EvConnect 2])"
    by (simp add: init_producer_def)
  let ?ds = "\<lparr>ds_producer = None, ds_all = [],
      ds_events = [EvConnect 0, EvSleep 5, EvConnect 1, EvSleep 5, EvConnect 2]\<rparr>
      :: 'b driver_state"
  have "ds_producer ?ds = None" by simp
  from run_profiles_dry [OF this, of rp clock api_search_car cl "''raw-car-listings''" 0 search_configs]
    i c show ?thesis
    by (simp add: run_all_def)
qed

text \<open>A run with no broker to connect to.\<close>

theorem connect_retries_then_dry_run_witness:
  "connect no_broker =
      (Inl (KafkaError ''NoBrokersAvailable''),
       [EvConnect 0, EvSleep 5, EvConnect 1, EvSleep 5, EvConnect 2])
   \<and> ds_producer (snd (run_all (\<lambda>v. []) (\<lambda>n i. ''t'') (\<lambda>r. Inr [zero_price_ad])
        no_broker idle_client)) = None"
proof -
  have h: "no_broker 0 = Inl (KafkaError ''NoBrokersAvailable'')"
    "no_broker 1 = Inl (KafkaError ''NoBrokersAvailable'')"
    "no_broker 2 = Inl (KafkaError ''NoBrokersAvailable'')"
    by simp_all
  from connect_retries_then_dry_run [of no_broker, OF h, of "\<lambda>v. []" "\<lambda>n i. ''t''" "\<lambda>r. Inr [zero_price_ad]" idle_client]
  show ?thesis
    by blast
qed

section \<open>The statistics of the driver\<close>

text \<open>
  C9. The statistics over the records
  \<^verbatim>\<open>[{price: 100000, year: 2010}, {price: null, year: 2005}, {price: 50000, year: null}]\<close>:
  the mean price is 75000, averaged over the two records with a price, and the year
  range is 2005 to 2010, taken over the two records with a year.
\<close>

theorem statistics_scenario:
  "statistics lt
     [[(''price'', PInt 100000), (''year'', PInt 2010)],
      [(''price'', PNone), (''year'', PInt 2005)],
      [(''price'', PInt 50000), (''year'', PNone)]]
   = Inr (Some 75000, Some (PInt 2005, PInt 2010))"
  by (simp add: statistics_def average_price_def year_range_def has_price_def has_year_def
      dict_get_def dict_item_def bind_exn_def py_less_def)

subsection \<open>The mean price when no record has a price\<close>

lemma sum_prices_without_price:
  "list_all (\<lambda>l. \<not> has_price l) ls \<Longrightarrow> sum_prices ls acc = Inr acc"
  by (induction ls arbitrary: acc) auto

lemma filter_without_price:
  "list_all (\<lambda>l. \<not> has_price l) ls \<Longrightarrow> filter has_price ls = []"
  by (induction ls) auto

lemma average_price_without_price:
  "list_all (\<lambda>l. \<not> has_price l) ls \<Longrightarrow> average_price ls = Inl ZeroDivisionError"
  by (simp add: average_price_def sum_prices_without_price filter_without_price bind_exn_def)

lemma sum_prices_filter: "sum_prices (filter has_price ls) acc = sum_prices ls acc"
  by (induction ls arbitrary: acc) (auto simp: bind_exn_def split: sum.splits option.splits)

lemma average_price_filter: "average_price (filter has_price ls) = average_price ls"
  by (simp add: average_price_def sum_prices_filter)

lemma has_price_iff:
  "has_price l \<longleftrightarrow> (\<exists>v. map_of l ''price'' = Some v \<and> truthy v)"
  by (auto simp: has_price_def dict_get_def split: option.splits)

subsection \<open>The producer is closed only by the cleanup\<close>

lemma connect_loop_no_close:
  "EvClose \<notin> set evs \<Longrightarrow> EvClose \<notin> set (snd (connect_loop connector mx as evs))"
  by (induction as arbitrary: evs) (auto split: sum.splits)

lemma init_producer_no_close: "EvClose \<notin> set (snd (init_producer connector))"
  using connect_loop_no_close [of "[]" connector 3 "[0 ..< 3]"]
  by (auto simp: init_producer_def connect_def split: prod.splits sum.splits)

lemma preview_no_close: "preview ls = Inr evs \<Longrightarrow> EvClose \<notin> set evs"
  by (induction ls arbitrary: evs) (auto simp: bind_exn_def split: sum.splits)

lemma run_profile_no_close:
  "EvClose \<notin> set (ds_events ds) \<Longrightarrow>
   EvClose \<notin> set (ds_events (snd (run_profile rp clock a cl topic config ds)))"
  by (auto simp: run_profile_def Let_def dest: preview_no_close
      split: option.splits prod.splits sum.splits)

lemma run_profiles_no_close:
  "EvClose \<notin> set (ds_events ds) \<Longrightarrow>
   EvClose \<notin> set (ds_events (snd (run_profiles rp clock a cl topic n configs ds)))"
proof (induction configs arbitrary: n ds)
  case Nil
  then show ?case by simp
next
  case (Cons config rest)
  have step: "EvClose \<notin> set (ds_events (snd (run_profile rp (clock n) a cl topic config ds)))"
    using Cons.prems by (rule run_profile_no_close)
  show ?case
  proof (cases "run_profile rp (clock n) a cl topic config ds")
    case (Pair err ds')
    with step have "EvClose \<notin> set (ds_events ds')" by simp
    with Pair Cons.IH [of ds' "Suc n"] show ?thesis
      by (cases err) auto
  qed
qed

lemma run_all_no_close:
  "EvClose \<notin> set (ds_events (snd (run_all rp clock a connector cl)))"
proof (cases "init_producer connector")
  case (Pair producer evs)
  with init_producer_no_close [of connector] have "EvClose \<notin> set evs" by simp
  then have "EvClose \<notin> set (ds_events \<lparr>ds_producer = producer, ds_all = [], ds_events = evs\<rparr>)"
    by simp
  from run_profiles_no_close [OF this] Pair show ?thesis
    by (simp add: run_all_def)
qed

text \<open>
  C10. When the loop over the profiles ends normally with at least one listing collected
  and no collected listing has a truthy price (each price is \<^verbatim>\<open>None\<close>, missing or 0),
  the mean price divides by zero: \<^verbatim>\<open>main\<close> ends with \<^verbatim>\<open>ZeroDivisionError\<close>, in
  the state the loop left, without closing the producer. The division is guarded by the
  collected list being non-empty only. A record without a truthy price counts neither in
  the sum nor in the divisor: the mean is that of the records with one.
\<close>

theorem mean_price_division_by_zero:
  assumes "fst (run_all rp clock a connector cl) = None"
    and "ds_all (snd (run_all rp clock a connector cl)) \<noteq> []"
    and "list_all (\<lambda>l. \<not> has_price l) (ds_all (snd (run_all rp clock a connector cl)))"
  shows "statistics lt (ds_all (snd (run_all rp clock a connector cl))) = Inl ZeroDivisionError
    \<and> rep_error (main rp lt clock a connector cl) = Some ZeroDivisionError
    \<and> rep_state (main rp lt clock a connector cl) = snd (run_all rp clock a connector cl)
    \<and> EvClose \<notin> set (ds_events (rep_state (main rp lt clock a connector cl)))
    \<and> average_price ls = average_price (filter has_price ls)
    \<and> \<not> has_price [(''price'', PInt 0)] \<and> \<not> has_price [(''price'', PNone)] \<and> \<not> has_price []"
proof -
  obtain ds where ra: "run_all rp clock a connector cl = (None, ds)"
    using assms(1) by (cases "run_all rp clock a connector cl") auto
  from assms ra have "average_price (ds_all ds) = Inl ZeroDivisionError"
    by (simp add: average_price_without_price)
  with assms(2) ra have st: "statistics lt (ds_all ds) = Inl ZeroDivisionError"
    by (simp add: statistics_def bind_exn_def)
  have err: "rep_error (main rp lt clock a connector cl) = Some ZeroDivisionError"
    using ra st by (simp add: main_def)
  have same: "rep_state (main rp lt clock a connector cl) = snd (run_all rp clock a connector cl)"
    using ra st by (simp add: main_def)
  have open_still: "EvClose \<notin> set (ds_events (rep_state (main rp lt clock a connector cl)))"
    using run_all_no_close [of rp clock a connector cl] same by simp
  have excluded: "\<not> has_price [(''price'', PInt 0)] \<and> \<not> has_price [(''price'', PNone)]
      \<and> \<not> has_price []"
    by (simp add: has_price_def dict_get_def)
  show ?thesis
    using st ra err same open_still excluded by (simp add: average_price_filter)
qed

text \<open>
  A run in which each of the three searches finds one ad whose price is 0, with no broker
  to connect to.
\<close>

theorem mean_price_division_by_zero_witness:
  "fst (run_all (\<lambda>v. []) (\<lambda>n i. ''t'') (\<lambda>r. Inr [zero_price_ad]) no_broker idle_client) = None
   \<and> length (ds_all (snd (run_all (\<lambda>v. []) (\<lambda>n i. ''t'') (\<lambda>r. Inr [zero_price_ad])
        no_broker idle_client))) = 3
   \<and> list_all (\<lambda>l. map_of l ''price'' = Some (PInt 0))
       (ds_all (snd (run_all (\<lambda>v. []) (\<lambda>n i. ''t'') (\<lambda>r. Inr [zero_price_ad])
          no_broker idle_client)))
   \<and> rep_error (main (\<lambda>v. []) no_order (\<lambda>n i. ''t'') (\<lambda>r. Inr [zero_price_ad])
        no_broker idle_client) = Some ZeroDivisionError"
proof -
  let ?run = "run_all (\<lambda>v. []) (\<lambda>n i. ''t'') (\<lambda>r. Inr [zero_price_ad]) no_broker idle_client"
  have h1: "fst ?run = None"
    by code_simp
  have h2: "length (ds_all (snd ?run)) = 3"
    by code_simp
  have h3: "list_all (\<lambda>l. map_of l ''price'' = Some (PInt 0)) (ds_all (snd ?run))"
    by code_simp
  have h4: "list_all (\<lambda>l. \<not> has_price l) (ds_all (snd ?run))"
    by code_simp
  from h2 have h5: "ds_all (snd ?run) \<noteq> []"
    by auto
  from mean_price_division_by_zero [OF h1 h5 h4, of no_order] h1 h2 h3 show ?thesis
    by blast
qed

end
